theory Spec2Isabelle
  imports Complex_Main "HOL-Library.Multiset"
begin

section \<open>Strings, addresses and build-time configuration\<close>

text \<open>
  Addresses are JavaScript strings.  \<open>toLowerCase\<close> is the ASCII part of
  \<open>String.prototype.toLowerCase\<close>, which is all that hexadecimal addresses exercise.
\<close>

definition lower_char :: "char \<Rightarrow> char" where
  "lower_char c =
     (case map_of (zip ''ABCDEFGHIJKLMNOPQRSTUVWXYZ'' ''abcdefghijklmnopqrstuvwxyz'') c of
        Some l \<Rightarrow> l
      | None \<Rightarrow> c)"

definition toLowerCase :: "string \<Rightarrow> string" where
  "toLowerCase s = map lower_char s"

definition ZeroAddress :: string where
  "ZeroAddress = ''0x0000000000000000000000000000000000000000''"

definition USDC_ADDRESS :: string where
  "USDC_ADDRESS = ''0x036CbD53842c5426634e7929541eC2318f3dCF7e''"

definition USDT_ADDRESS :: string where
  "USDT_ADDRESS = ''0x9E12AD42c4E4d2acFBADE01a96446e48e6764B98''"

definition USDC_LOGO :: string where
  "USDC_LOGO = ''https://assets.coingecko.com/coins/images/6319/standard/usdc.png?1696506694''"

definition USDT_LOGO :: string where
  "USDT_LOGO = ''https://assets.coingecko.com/coins/images/325/standard/Tether.png?1696501661''"

definition ETH_LOGO :: string where
  "ETH_LOGO = ''https://assets.coingecko.com/coins/images/279/standard/ethereum.png?1696501628''"

text \<open>
  \<open>import.meta.env\<close>: the contract addresses are supplied at build time and may be
  absent (\<open>None\<close> is JavaScript's \<open>undefined\<close>).
\<close>

record env =
  VITE_INVOICE_CONTRACT_ADDRESS_BASE_SEPOLIA :: "string option"
  VITE_BASEPAY_MORPH :: "string option"
  VITE_CROSSCHAIN_AUTOMATION_BASE_SEPOLIA :: "string option"
  VITE_CROSSCHAIN_AUTOMATION_MORPH_HOLESKY :: "string option"

text \<open>JavaScript truthiness of an optional string: \<open>undefined\<close> and \<open>""\<close> are falsy.\<close>

fun truthy :: "string option \<Rightarrow> bool" where
  "truthy None = False"
| "truthy (Some s) = (s \<noteq> [])"

text \<open>\<open>x || d\<close> on an optional string with a string default.\<close>

fun or_else :: "string option \<Rightarrow> string \<Rightarrow> string" where
  "or_else None d = d"
| "or_else (Some s) d = (if s = [] then d else s)"

section \<open>Network registry\<close>

subsection \<open>dashboard.tsx\<close>

record TokenConfig =
  address :: string
  symbol :: string
  decimals :: nat
  logo :: string

record NetworkConfig =
  chainId :: int
  name :: string
  token :: TokenConfig
  contractAddress :: "string option"

definition NETWORK_CONFIGS :: "env \<Rightarrow> int \<Rightarrow> NetworkConfig option" where
  "NETWORK_CONFIGS e =
     [84532 \<mapsto> \<lparr> chainId = 84532, name = ''Base Sepolia'',
                  token = \<lparr> address = USDC_ADDRESS, symbol = ''USDC'', decimals = 6,
                            logo = USDC_LOGO \<rparr>,
                  contractAddress = VITE_INVOICE_CONTRACT_ADDRESS_BASE_SEPOLIA e \<rparr>,
      2810 \<mapsto> \<lparr> chainId = 2810, name = ''Morph Holesky'',
                 token = \<lparr> address = USDT_ADDRESS, symbol = ''USDT'', decimals = 18,
                           logo = USDT_LOGO \<rparr>,
                 contractAddress = VITE_BASEPAY_MORPH e \<rparr>]"

text \<open>\<open>const currentNetwork = NETWORK_CONFIGS[chainId] || NETWORK_CONFIGS[84532]\<close>\<close>

definition currentNetwork :: "env \<Rightarrow> int \<Rightarrow> NetworkConfig" where
  "currentNetwork e cid =
     (case NETWORK_CONFIGS e cid of
        Some c \<Rightarrow> c
      | None \<Rightarrow> the (NETWORK_CONFIGS e 84532))"

subsection \<open>The invoice-creation page\<close>

record TokenOption =
  name :: string
  address :: string
  logo :: string

definition USDC_TOKEN_BASE_SEPOLIA :: TokenOption where
  "USDC_TOKEN_BASE_SEPOLIA =
     \<lparr> TokenOption.name = ''USDC'', TokenOption.address = USDC_ADDRESS,
       TokenOption.logo = USDC_LOGO \<rparr>"

definition USDT_TOKEN_MORPH_HOLESKY :: TokenOption where
  "USDT_TOKEN_MORPH_HOLESKY =
     \<lparr> TokenOption.name = ''USDT'', TokenOption.address = USDT_ADDRESS,
       TokenOption.logo = USDT_LOGO \<rparr>"

record CreateNetworkConfig =
  chainId :: int
  name :: string
  contractAddress :: "string option"
  supportedTokens :: "TokenOption list"

definition CREATE_NETWORK_CONFIGS :: "env \<Rightarrow> int \<Rightarrow> CreateNetworkConfig option" where
  "CREATE_NETWORK_CONFIGS e =
     [84532 \<mapsto> \<lparr> CreateNetworkConfig.chainId = 84532,
                  CreateNetworkConfig.name = ''Base Sepolia'',
                  CreateNetworkConfig.contractAddress =
                    VITE_INVOICE_CONTRACT_ADDRESS_BASE_SEPOLIA e,
                  supportedTokens = [USDC_TOKEN_BASE_SEPOLIA] \<rparr>,
      2810 \<mapsto> \<lparr> CreateNetworkConfig.chainId = 2810,
                 CreateNetworkConfig.name = ''Morph Holesky'',
                 CreateNetworkConfig.contractAddress = VITE_BASEPAY_MORPH e,
                 supportedTokens = [USDT_TOKEN_MORPH_HOLESKY] \<rparr>]"

definition createCurrentNetwork :: "env \<Rightarrow> int \<Rightarrow> CreateNetworkConfig" where
  "createCurrentNetwork e cid =
     (case CREATE_NETWORK_CONFIGS e cid of
        Some c \<Rightarrow> c
      | None \<Rightarrow> the (CREATE_NETWORK_CONFIGS e 84532))"

subsection \<open>pay/invoice_checkout.tsx\<close>

record TokenInfo =
  symbol :: string
  decimals :: nat
  logo :: string

record CheckoutNetworkConfig =
  chainId :: int
  name :: string
  contractAddress :: "string option"
  tokens :: "string \<rightharpoonup> TokenInfo"

definition ETH_ADDRESS :: string where
  "ETH_ADDRESS = ZeroAddress"

definition ETH_INFO :: TokenInfo where
  "ETH_INFO = \<lparr> TokenInfo.symbol = ''ETH'', TokenInfo.decimals = 18, TokenInfo.logo = ETH_LOGO \<rparr>"

definition CHECKOUT_BASE_SEPOLIA :: "env \<Rightarrow> CheckoutNetworkConfig" where
  "CHECKOUT_BASE_SEPOLIA e =
     \<lparr> CheckoutNetworkConfig.chainId = 84532,
       CheckoutNetworkConfig.name = ''Base Sepolia'',
       CheckoutNetworkConfig.contractAddress = VITE_INVOICE_CONTRACT_ADDRESS_BASE_SEPOLIA e,
       tokens = [USDC_ADDRESS \<mapsto>
                   \<lparr> TokenInfo.symbol = ''USDC'', TokenInfo.decimals = 6,
                     TokenInfo.logo = USDC_LOGO \<rparr>,
                 ETH_ADDRESS \<mapsto> ETH_INFO] \<rparr>"

definition CHECKOUT_MORPH_HOLESKY :: "env \<Rightarrow> CheckoutNetworkConfig" where
  "CHECKOUT_MORPH_HOLESKY e =
     \<lparr> CheckoutNetworkConfig.chainId = 2810,
       CheckoutNetworkConfig.name = ''Morph Holesky'',
       CheckoutNetworkConfig.contractAddress = VITE_BASEPAY_MORPH e,
       tokens = [USDT_ADDRESS \<mapsto>
                   \<lparr> TokenInfo.symbol = ''USDT'', TokenInfo.decimals = 18,
                     TokenInfo.logo = USDT_LOGO \<rparr>,
                 ETH_ADDRESS \<mapsto> ETH_INFO] \<rparr>"

text \<open>
  The table as a list of its entries in the order \<open>Object.values\<close> enumerates them:
  integer-like keys in ascending order, so 2810 before 84532.
\<close>

definition CHECKOUT_NETWORK_CONFIGS :: "env \<Rightarrow> (int \<times> CheckoutNetworkConfig) list" where
  "CHECKOUT_NETWORK_CONFIGS e =
     [(2810, CHECKOUT_MORPH_HOLESKY e), (84532, CHECKOUT_BASE_SEPOLIA e)]"

definition checkoutCurrentNetwork :: "env \<Rightarrow> int \<Rightarrow> CheckoutNetworkConfig" where
  "checkoutCurrentNetwork e cid =
     (case map_of (CHECKOUT_NETWORK_CONFIGS e) cid of
        Some c \<Rightarrow> c
      | None \<Rightarrow> the (map_of (CHECKOUT_NETWORK_CONFIGS e) 84532))"

section \<open>Invoice checkout: lookup and payment\<close>

text \<open>
  The contract returns an invoice as a positional tuple of nine fields; the page maps it
  to a record by position.
\<close>

type_synonym raw_invoice =
  "string \<times> string \<times> nat \<times> nat \<times> bool \<times> string \<times> string \<times> string \<times> nat"

record InvoiceData =
  merchant :: string
  token :: string
  amount :: nat
  dueBy :: nat
  isPaid :: bool
  memo :: string
  logoURI :: string
  description :: string
  paidAt :: nat

fun mappedInv :: "raw_invoice \<Rightarrow> InvoiceData" where
  "mappedInv (i0, i1, i2, i3, i4, i5, i6, i7, i8) =
     \<lparr> merchant = i0, InvoiceData.token = i1, amount = i2, dueBy = i3, isPaid = i4,
       memo = i5, logoURI = i6, description = i7, paidAt = i8 \<rparr>"

text \<open>
  A provider is either the wallet's injected one (\<open>ethers.BrowserProvider\<close>) or a direct
  JSON-RPC endpoint (\<open>ethers.JsonRpcProvider\<close>, whose URL may be \<open>undefined\<close>).
\<close>

datatype provider = BrowserProvider | JsonRpcProvider "string option"

definition MORPH_RPC :: string where
  "MORPH_RPC = ''https://rpc-quicknode-holesky.morphl2.io''"

definition BASE_RPC :: string where
  "BASE_RPC = ''https://sepolia.base.org''"

text \<open>The conditional that selects the direct endpoint of the target chain.\<close>

definition rpcUrl :: "int \<Rightarrow> string option" where
  "rpcUrl cid = (if cid = 2810 then Some MORPH_RPC
                 else if cid = 84532 then Some BASE_RPC else None)"

text \<open>The endpoint used when probing another network for the invoice.\<close>

definition testRpcUrl :: "int \<Rightarrow> string option" where
  "testRpcUrl cid = (if cid = 84532 then Some BASE_RPC
                     else if cid = 2810 then Some MORPH_RPC else None)"

text \<open>
  Transactions requested from the wallet through \<open>walletClient.writeContract\<close>:
  an ERC-20 approval (token, spender, amount) or the payment of an invoice
  (contract, invoice hash, attached value).
\<close>

datatype write_call =
  Approve string "string option" nat
| PayInvoice "string option" "string option" nat

text \<open>
  The chain as the page sees it.  \<open>'w\<close> is the state of the outside world; reads return
  \<open>None\<close> when the call throws, and \<open>writeContract\<close> returns the transaction hash
  together with the world after the submission, or \<open>None\<close> when it throws (the user
  declines, the node rejects the call).
\<close>

record 'w checkout_chain =
  getNetwork :: "'w \<Rightarrow> int option"
  invoices :: "'w \<Rightarrow> provider \<Rightarrow> string \<Rightarrow> string \<Rightarrow> raw_invoice option"
  getCode :: "'w \<Rightarrow> provider \<Rightarrow> string \<Rightarrow> string option"
  allowance :: "'w \<Rightarrow> provider \<Rightarrow> string \<Rightarrow> string \<Rightarrow> string option \<Rightarrow> nat option"
  writeContract :: "'w \<Rightarrow> write_call \<Rightarrow> (string \<times> 'w) option"

text \<open>The hooks and component state that the two handlers close over.\<close>

record checkout_state =
  address :: "string option"
  walletClient :: bool
  chainId :: int
  ethereum :: bool
  hash :: "string option"
  invoiceData :: "InvoiceData option"
  contract :: bool

subsection \<open>fetchInvoice\<close>

datatype fetch_outcome =
  NothingToFetch
| ContractNotDeployed string
| FoundOnOtherNetwork string
| InvoiceNotFound string
| InvoiceLoaded InvoiceData
| FailedToLoad

text \<open>
  The loop over the other networks.  It returns \<open>foundOnNetwork\<close> and the lookups it
  attempted, each as the chain id probed.  A network without a contract address is
  skipped; a lookup that throws is ignored; the loop stops at the first network on
  which the merchant is not the zero address.
\<close>

fun findOnOtherNetworks ::
  "'w checkout_chain \<Rightarrow> 'w \<Rightarrow> string \<Rightarrow> CheckoutNetworkConfig list \<Rightarrow> string option \<times> int list"
where
  "findOnOtherNetworks ch w h [] = (None, [])"
| "findOnOtherNetworks ch w h (n # ns) =
     (if \<not> truthy (CheckoutNetworkConfig.contractAddress n) then findOnOtherNetworks ch w h ns
      else
        (case invoices ch w (JsonRpcProvider (testRpcUrl (CheckoutNetworkConfig.chainId n)))
                (the (CheckoutNetworkConfig.contractAddress n)) h of
           None \<Rightarrow>
             (let (r, t) = findOnOtherNetworks ch w h ns
              in (r, CheckoutNetworkConfig.chainId n # t))
         | Some testInv \<Rightarrow>
             (if fst testInv \<noteq> ZeroAddress
              then (Some (CheckoutNetworkConfig.name n), [CheckoutNetworkConfig.chainId n])
              else
                (let (r, t) = findOnOtherNetworks ch w h ns
                 in (r, CheckoutNetworkConfig.chainId n # t)))))"

definition otherNetworks :: "env \<Rightarrow> CheckoutNetworkConfig \<Rightarrow> CheckoutNetworkConfig list" where
  "otherNetworks e cur =
     filter (\<lambda>net. CheckoutNetworkConfig.chainId net \<noteq> CheckoutNetworkConfig.chainId cur)
       (map snd (CHECKOUT_NETWORK_CONFIGS e))"

text \<open>The provider the lookup reads through: no reference is made to the wallet library's chain id.\<close>

definition fetchProvider :: "int \<Rightarrow> CheckoutNetworkConfig \<Rightarrow> provider" where
  "fetchProvider providerChain cur =
     (if providerChain \<noteq> CheckoutNetworkConfig.chainId cur
      then (case rpcUrl (CheckoutNetworkConfig.chainId cur) of
              Some u \<Rightarrow> JsonRpcProvider (Some u)
            | None \<Rightarrow> BrowserProvider)
      else BrowserProvider)"

text \<open>
  \<open>fetchInvoice\<close> returns its outcome, the provider it read the active network through
  (when it got that far) and the chain ids of the secondary lookups.
\<close>

definition fetchInvoice ::
  "'w checkout_chain \<Rightarrow> env \<Rightarrow> checkout_state \<Rightarrow> 'w
     \<Rightarrow> fetch_outcome \<times> provider option \<times> int list"
where
  "fetchInvoice ch e st w =
     (if \<not> truthy (hash st) \<or> \<not> ethereum st then (NothingToFetch, None, [])
      else
        (case getNetwork ch w of
           None \<Rightarrow> (FailedToLoad, None, [])
         | Some providerChain \<Rightarrow>
             (let cur = checkoutCurrentNetwork e (chainId st);
                  contractProvider = fetchProvider providerChain cur
              in if \<not> truthy (CheckoutNetworkConfig.contractAddress cur)
                 then (ContractNotDeployed (CheckoutNetworkConfig.name cur),
                       Some contractProvider, [])
                 else
                   (case invoices ch w contractProvider
                           (the (CheckoutNetworkConfig.contractAddress cur)) (the (hash st)) of
                      None \<Rightarrow> (FailedToLoad, Some contractProvider, [])
                    | Some invd \<Rightarrow>
                        (if fst invd = ZeroAddress
                         then
                           (case findOnOtherNetworks ch w (the (hash st)) (otherNetworks e cur) of
                              (foundOnNetwork, t) \<Rightarrow>
                                (if truthy foundOnNetwork
                                 then (FoundOnOtherNetwork (the foundOnNetwork),
                                       Some contractProvider, t)
                                 else (InvoiceNotFound (CheckoutNetworkConfig.name cur),
                                       Some contractProvider, t)))
                         else (InvoiceLoaded (mappedInv invd), Some contractProvider, []))))))"

subsection \<open>handlePay\<close>

datatype pay_outcome =
  MissingData
| NetworkMismatch string
| TokenContractNotFound
| AllowanceCheckFailed
| WalletNotConnected
| PaymentFailed
| PaymentSuccessful

text \<open>
  The provider for the token reads of a payment: the injected one when it reports the
  target chain; the direct endpoint when only the injected provider disagrees; no
  provider at all (the network-mismatch exit) when the wallet library disagrees too.
\<close>

definition paymentProvider :: "int \<Rightarrow> int \<Rightarrow> CheckoutNetworkConfig \<Rightarrow> provider option" where
  "paymentProvider providerChain wagmiChain cur =
     (if providerChain \<noteq> CheckoutNetworkConfig.chainId cur
      then (if wagmiChain = CheckoutNetworkConfig.chainId cur
            then (case rpcUrl (CheckoutNetworkConfig.chainId cur) of
                    Some u \<Rightarrow> Some (JsonRpcProvider (Some u))
                  | None \<Rightarrow> Some BrowserProvider)
            else None)
      else Some BrowserProvider)"

text \<open>The final step: \<open>payInvoice\<close>, with the amount attached only for the native asset.\<close>

definition payStep ::
  "'w checkout_chain \<Rightarrow> checkout_state \<Rightarrow> CheckoutNetworkConfig \<Rightarrow> InvoiceData
     \<Rightarrow> write_call list \<Rightarrow> 'w \<Rightarrow> pay_outcome \<times> write_call list \<times> 'w"
where
  "payStep ch st cur invd sent w =
     (if \<not> walletClient st then (WalletNotConnected, sent, w)
      else
        (let call = PayInvoice (CheckoutNetworkConfig.contractAddress cur) (hash st)
                      (if InvoiceData.token invd = ETH_ADDRESS then amount invd else 0)
         in case writeContract ch w call of
              None \<Rightarrow> (PaymentFailed, sent @ [call], w)
            | Some (paymentHash, w') \<Rightarrow> (PaymentSuccessful, sent @ [call], w')))"

text \<open>
  \<open>handlePay\<close> returns its outcome, the write calls it requested from the wallet in
  order, and the world afterwards.
\<close>

definition handlePay ::
  "'w checkout_chain \<Rightarrow> env \<Rightarrow> checkout_state \<Rightarrow> 'w \<Rightarrow> pay_outcome \<times> write_call list \<times> 'w"
where
  "handlePay ch e st w =
     (if \<not> contract st \<or> \<not> truthy (address st) \<or> invoiceData st = None
      then (MissingData, [], w)
      else
        (let invd = the (invoiceData st);
             cur = checkoutCurrentNetwork e (chainId st)
         in if InvoiceData.token invd \<noteq> ETH_ADDRESS
            then
              (case getNetwork ch w of
                 None \<Rightarrow> (PaymentFailed, [], w)
               | Some providerChain \<Rightarrow>
                   (case paymentProvider providerChain (chainId st) cur of
                      None \<Rightarrow> (NetworkMismatch (CheckoutNetworkConfig.name cur), [], w)
                    | Some pp \<Rightarrow>
                        (case getCode ch w pp (InvoiceData.token invd) of
                           None \<Rightarrow> (AllowanceCheckFailed, [], w)
                         | Some code \<Rightarrow>
                             (if code = ''0x'' then (TokenContractNotFound, [], w)
                              else
                                (case allowance ch w pp (InvoiceData.token invd)
                                        (the (address st))
                                        (CheckoutNetworkConfig.contractAddress cur) of
                                   None \<Rightarrow> (AllowanceCheckFailed, [], w)
                                 | Some a \<Rightarrow>
                                     (if a < amount invd
                                      then
                                        (if \<not> walletClient st then (WalletNotConnected, [], w)
                                         else
                                           (let call = Approve (InvoiceData.token invd)
                                                         (CheckoutNetworkConfig.contractAddress cur)
                                                         (amount invd)
                                            in case writeContract ch w call of
                                                 None \<Rightarrow> (PaymentFailed, [call], w)
                                               | Some (approvalHash, w') \<Rightarrow>
                                                   payStep ch st cur invd [call] w'))
                                      else payStep ch st cur invd [] w))))))
            else payStep ch st cur invd [] w))"

section \<open>Payment automation page\<close>

subsection \<open>Configuration and wallet state\<close>

record AutomationNetworkConfig =
  chainId :: int
  name :: string
  contractAddress :: string
  token :: TokenConfig

definition AUTOMATION_NETWORK_CONFIGS :: "env \<Rightarrow> int \<Rightarrow> AutomationNetworkConfig option" where
  "AUTOMATION_NETWORK_CONFIGS e =
     [84532 \<mapsto> \<lparr> AutomationNetworkConfig.chainId = 84532,
                  AutomationNetworkConfig.name = ''Base Sepolia'',
                  AutomationNetworkConfig.contractAddress =
                    or_else (VITE_CROSSCHAIN_AUTOMATION_BASE_SEPOLIA e) [],
                  AutomationNetworkConfig.token =
                    \<lparr> TokenConfig.address = USDC_ADDRESS, TokenConfig.symbol = ''USDC'',
                      TokenConfig.decimals = 6, TokenConfig.logo = USDC_LOGO \<rparr> \<rparr>,
      2810 \<mapsto> \<lparr> AutomationNetworkConfig.chainId = 2810,
                 AutomationNetworkConfig.name = ''Morph Holesky'',
                 AutomationNetworkConfig.contractAddress =
                   or_else (VITE_CROSSCHAIN_AUTOMATION_MORPH_HOLESKY e) [],
                 AutomationNetworkConfig.token =
                   \<lparr> TokenConfig.address = USDT_ADDRESS, TokenConfig.symbol = ''USDT'',
                     TokenConfig.decimals = 18, TokenConfig.logo = USDT_LOGO \<rparr> \<rparr>]"

definition automationCurrentNetwork :: "env \<Rightarrow> int \<Rightarrow> AutomationNetworkConfig" where
  "automationCurrentNetwork e cid =
     (case AUTOMATION_NETWORK_CONFIGS e cid of
        Some c \<Rightarrow> c
      | None \<Rightarrow> the (AUTOMATION_NETWORK_CONFIGS e 84532))"

text \<open>What \<open>useAccount\<close>, \<open>useChainId\<close> and \<open>useWalletClient\<close> report.\<close>

record wallet =
  isConnected :: bool
  address :: "string option"
  chainId :: int
  walletClient :: bool

text \<open>
  A payment as the contract returns it (\<open>getPaymentDetails\<close>) and as the page keeps it
  (\<open>PaymentData\<close>).  The page stores the id as the decimal string of the loop index and
  hands that string back to the contract; the model keeps the number itself.
\<close>

record PaymentDetails =
  creator :: string
  totalAmount :: nat
  amountPerRecipient :: nat
  scheduledTime :: nat
  executed :: bool

record PaymentData =
  id :: nat
  creator :: string
  totalAmount :: string
  recipients :: "string list"
  amountPerRecipient :: string
  scheduledTime :: int
  executed :: bool

text \<open>
  The automation contract, the token contract and the signer as the page reaches them.
  Reads give \<open>None\<close> when the call throws.  \<open>executeScheduledPayment\<close> is the submission
  of the transaction: \<open>None\<close> when it throws, otherwise whether the later \<open>tx.wait()\<close>
  resolves, and the world after the submission.  \<open>tokenApprove\<close> submits an approval
  and \<open>approveWait\<close> awaits its confirmation.
\<close>

record 'w automation_chain =
  signerAvailable :: "'w \<Rightarrow> bool"
  nextPaymentId :: "'w \<Rightarrow> nat option"
  getPaymentDetails :: "'w \<Rightarrow> nat \<Rightarrow> PaymentDetails option"
  getPaymentRecipients :: "'w \<Rightarrow> nat \<Rightarrow> string list option"
  owner :: "'w \<Rightarrow> string option"
  authorizedControllers :: "'w \<Rightarrow> string \<Rightarrow> bool option"
  executeScheduledPayment :: "'w \<Rightarrow> nat \<Rightarrow> (bool \<times> 'w) option"
  tokenAllowance :: "'w \<Rightarrow> string \<Rightarrow> string \<Rightarrow> string \<Rightarrow> nat option"
  tokenApprove :: "'w \<Rightarrow> string \<Rightarrow> string \<Rightarrow> nat \<Rightarrow> 'w option"
  approveWait :: "'w \<Rightarrow> 'w option"

text \<open>The two functions of the ethers library that the page formats and parses amounts with.\<close>

record ethers =
  formatUnits :: "nat \<Rightarrow> nat \<Rightarrow> string"
  parseUnits :: "string \<Rightarrow> nat \<Rightarrow> nat option"

text \<open>\<open>getSigner\<close> throws unless this holds.\<close>

definition getSigner :: "'w automation_chain \<Rightarrow> wallet \<Rightarrow> AutomationNetworkConfig \<Rightarrow> 'w \<Rightarrow> bool" where
  "getSigner ch wl cur w =
     (if \<not> walletClient wl then False
      else if \<not> truthy (wallet.address wl) then False
      else if wallet.chainId wl \<noteq> AutomationNetworkConfig.chainId cur then False
      else signerAvailable ch w)"

subsection \<open>approveToken\<close>

text \<open>
  Whatever goes wrong inside \<open>approveToken\<close> is rethrown as an approval failure; the
  reason distinguishes a missing address, a call that threw, and the verification of
  the new allowance (expected, got).
\<close>

datatype approval_failure =
  AddressNotAvailable
| CallThrew
| VerificationFailed nat nat

text \<open>
  The result, the approvals submitted (spender, amount) and the world afterwards.
\<close>

definition approveToken ::
  "'w automation_chain \<Rightarrow> wallet \<Rightarrow> AutomationNetworkConfig \<Rightarrow> string \<Rightarrow> nat \<Rightarrow> 'w
     \<Rightarrow> (approval_failure + unit) \<times> (string \<times> nat) list \<times> 'w"
where
  "approveToken ch wl cur tokenAddress amountRaw w =
     (if \<not> truthy (wallet.address wl) then (Inl AddressNotAvailable, [], w)
      else
        (case tokenAllowance ch w tokenAddress (the (wallet.address wl))
                (AutomationNetworkConfig.contractAddress cur) of
           None \<Rightarrow> (Inl CallThrew, [], w)
         | Some currentAllowance \<Rightarrow>
             (if currentAllowance < amountRaw
              then
                (case tokenApprove ch w tokenAddress
                        (AutomationNetworkConfig.contractAddress cur) amountRaw of
                   None \<Rightarrow> (Inl CallThrew, [], w)
                 | Some w1 \<Rightarrow>
                     (let tx = (AutomationNetworkConfig.contractAddress cur, amountRaw)
                      in case approveWait ch w1 of
                           None \<Rightarrow> (Inl CallThrew, [tx], w1)
                         | Some w2 \<Rightarrow>
                             (case tokenAllowance ch w2 tokenAddress (the (wallet.address wl))
                                     (AutomationNetworkConfig.contractAddress cur) of
                                None \<Rightarrow> (Inl CallThrew, [tx], w2)
                              | Some newAllowance \<Rightarrow>
                                  (if newAllowance < amountRaw
                                   then (Inl (VerificationFailed amountRaw newAllowance), [tx], w2)
                                   else (Inr (), [tx], w2)))))
              else (Inr (), [], w))))"

subsection \<open>loadPaymentData\<close>

text \<open>
  One turn of the loop over the payment ids: both reads, the creator test, and the push
  onto \<open>history\<close> or \<open>scheduled\<close>.  A read that throws is caught inside the loop, and the
  turn leaves both lists as they are.
\<close>

definition mkPayment ::
  "ethers \<Rightarrow> AutomationNetworkConfig \<Rightarrow> nat \<Rightarrow> PaymentDetails \<Rightarrow> string list \<Rightarrow> PaymentData"
where
  "mkPayment lib cur i d rs =
     \<lparr> id = i,
       PaymentData.creator = PaymentDetails.creator d,
       PaymentData.totalAmount =
         formatUnits lib (PaymentDetails.totalAmount d)
           (TokenConfig.decimals (AutomationNetworkConfig.token cur)),
       recipients = rs,
       PaymentData.amountPerRecipient =
         formatUnits lib (PaymentDetails.amountPerRecipient d)
           (TokenConfig.decimals (AutomationNetworkConfig.token cur)),
       PaymentData.scheduledTime = int (PaymentDetails.scheduledTime d),
       PaymentData.executed = PaymentDetails.executed d \<rparr>"

fun fetchPayments ::
  "'w automation_chain \<Rightarrow> ethers \<Rightarrow> AutomationNetworkConfig \<Rightarrow> string \<Rightarrow> 'w \<Rightarrow> nat list
     \<Rightarrow> PaymentData list \<times> PaymentData list \<Rightarrow> PaymentData list \<times> PaymentData list"
where
  "fetchPayments ch lib cur addr w [] (scheduled, history) = (scheduled, history)"
| "fetchPayments ch lib cur addr w (i # is) (scheduled, history) =
     (case getPaymentDetails ch w i of
        None \<Rightarrow> fetchPayments ch lib cur addr w is (scheduled, history)
      | Some paymentDetails \<Rightarrow>
          (case getPaymentRecipients ch w i of
             None \<Rightarrow> fetchPayments ch lib cur addr w is (scheduled, history)
           | Some rs \<Rightarrow>
               (if toLowerCase (PaymentDetails.creator paymentDetails) = toLowerCase addr
                then
                  (let payment = mkPayment lib cur i paymentDetails rs
                   in if PaymentDetails.executed paymentDetails
                      then fetchPayments ch lib cur addr w is (scheduled, history @ [payment])
                      else fetchPayments ch lib cur addr w is (scheduled @ [payment], history))
                else fetchPayments ch lib cur addr w is (scheduled, history))))"

text \<open>
  \<open>xs.sort((a, b) => b.scheduledTime - a.scheduledTime)\<close>: the sort of JavaScript arrays
  is stable, so its result is the stable sort on the negated key.
\<close>

definition sortNewestFirst :: "PaymentData list \<Rightarrow> PaymentData list" where
  "sortNewestFirst xs = sort_key (\<lambda>p. - PaymentData.scheduledTime p) xs"

text \<open>
  \<open>loadPaymentData\<close> gives the new \<open>scheduledPayments\<close> and \<open>paymentHistory\<close>, or \<open>None\<close>
  when it returns early or fails before the loop and leaves the state untouched.
\<close>

definition loadPaymentData ::
  "'w automation_chain \<Rightarrow> ethers \<Rightarrow> env \<Rightarrow> wallet \<Rightarrow> 'w
     \<Rightarrow> (PaymentData list \<times> PaymentData list) option"
where
  "loadPaymentData ch lib e wl w =
     (let cur = automationCurrentNetwork e (wallet.chainId wl)
      in if \<not> isConnected wl \<or> \<not> truthy (wallet.address wl)
            \<or> AutomationNetworkConfig.contractAddress cur = [] \<or> \<not> walletClient wl
         then None
         else if \<not> getSigner ch wl cur w then None
         else
           (case nextPaymentId ch w of
              None \<Rightarrow> None
            | Some paymentCount \<Rightarrow>
                (case fetchPayments ch lib cur (the (wallet.address wl)) w [0..<paymentCount] ([], []) of
                   (scheduled, history) \<Rightarrow>
                     Some (sortNewestFirst scheduled, sortNewestFirst history))))"

subsection \<open>Executable payments\<close>

text \<open>
  \<open>Date.now() / 1000 > scheduledTime\<close>, with the clock in milliseconds.  The quotient is
  taken exactly; the clock is read once for a whole scan.
\<close>

definition isPaymentOverdue :: "int \<Rightarrow> int \<Rightarrow> bool" where
  "isPaymentOverdue now t = ((of_int now :: rat) / 1000 > of_int t)"

definition canExecutePayment ::
  "'w automation_chain \<Rightarrow> wallet \<Rightarrow> AutomationNetworkConfig \<Rightarrow> 'w \<Rightarrow> nat \<Rightarrow> bool"
where
  "canExecutePayment ch wl cur w paymentId =
     (if \<not> isConnected wl \<or> \<not> truthy (wallet.address wl) then False
      else if \<not> getSigner ch wl cur w then False
      else
        (case getPaymentDetails ch w paymentId of
           None \<Rightarrow> False
         | Some paymentDetails \<Rightarrow>
             (if toLowerCase (PaymentDetails.creator paymentDetails)
                   = toLowerCase (the (wallet.address wl))
              then True
              else
                (case owner ch w of
                   None \<Rightarrow> False
                 | Some ownr \<Rightarrow>
                     (if toLowerCase ownr = toLowerCase (the (wallet.address wl)) then True
                      else
                        (case authorizedControllers ch w (the (wallet.address wl)) of
                           None \<Rightarrow> False
                         | Some isAuthorizedController \<Rightarrow> isAuthorizedController))))))"

fun executableLoop ::
  "'w automation_chain \<Rightarrow> wallet \<Rightarrow> AutomationNetworkConfig \<Rightarrow> int \<Rightarrow> 'w
     \<Rightarrow> PaymentData list \<Rightarrow> nat set \<Rightarrow> nat set"
where
  "executableLoop ch wl cur now w [] executableSet = executableSet"
| "executableLoop ch wl cur now w (payment # payments) executableSet =
     executableLoop ch wl cur now w payments
       (if isPaymentOverdue now (PaymentData.scheduledTime payment)
           \<and> canExecutePayment ch wl cur w (PaymentData.id payment)
        then insert (PaymentData.id payment) executableSet
        else executableSet)"

text \<open>\<open>None\<close>: the early return, \<open>executablePayments\<close> keeps its previous value.\<close>

definition checkExecutablePayments ::
  "'w automation_chain \<Rightarrow> wallet \<Rightarrow> AutomationNetworkConfig \<Rightarrow> int \<Rightarrow> 'w
     \<Rightarrow> PaymentData list \<Rightarrow> nat set option"
where
  "checkExecutablePayments ch wl cur now w payments =
     (if \<not> isConnected wl \<or> \<not> truthy (wallet.address wl) then None
      else Some (executableLoop ch wl cur now w payments {}))"

subsection \<open>autoExecuteOverduePayments\<close>

text \<open>
  One tick of the poller.  The \<open>try\<close> encloses the whole loop, so a \<open>getSigner\<close> or a
  submission that throws ends the loop.  The result lists the payments whose execution
  was submitted, each with the outcome of its asynchronous confirmation, says whether
  the tick ended in the batch-error handler, and gives the world afterwards.  The
  one-second pause after each submission is not represented: the clock value \<open>now\<close>
  stands for the whole tick.
\<close>

fun autoExecuteLoop ::
  "'w automation_chain \<Rightarrow> wallet \<Rightarrow> AutomationNetworkConfig \<Rightarrow> int \<Rightarrow> nat set
     \<Rightarrow> PaymentData list \<Rightarrow> 'w \<Rightarrow> (nat \<times> bool) list \<times> bool \<times> 'w"
where
  "autoExecuteLoop ch wl cur now executablePayments [] w = ([], False, w)"
| "autoExecuteLoop ch wl cur now executablePayments (payment # payments) w =
     (if isPaymentOverdue now (PaymentData.scheduledTime payment)
         \<and> PaymentData.id payment \<in> executablePayments
      then
        (if \<not> getSigner ch wl cur w then ([], True, w)
         else
           (case executeScheduledPayment ch w (PaymentData.id payment) of
              None \<Rightarrow> ([], True, w)
            | Some (confirmed, w') \<Rightarrow>
                (case autoExecuteLoop ch wl cur now executablePayments payments w' of
                   (submitted, batchError, w'') \<Rightarrow>
                     ((PaymentData.id payment, confirmed) # submitted, batchError, w''))))
      else autoExecuteLoop ch wl cur now executablePayments payments w)"

definition autoExecuteOverduePayments ::
  "'w automation_chain \<Rightarrow> wallet \<Rightarrow> AutomationNetworkConfig \<Rightarrow> int \<Rightarrow> nat set
     \<Rightarrow> PaymentData list \<Rightarrow> 'w \<Rightarrow> (nat \<times> bool) list \<times> bool \<times> 'w"
where
  "autoExecuteOverduePayments ch wl cur now executablePayments scheduledPayments w =
     (if \<not> isConnected wl \<or> \<not> truthy (wallet.address wl) \<or> scheduledPayments = []
      then ([], False, w)
      else autoExecuteLoop ch wl cur now executablePayments scheduledPayments w)"

section \<open>Amounts: scaling on submission and on display\<close>

subsection \<open>Creating an invoice\<close>

record InvoiceFormData =
  merchant :: string
  token :: string
  amount :: string
  validForSeconds :: string
  memo :: string
  logoURI :: string
  description :: string

text \<open>
  The decimal count \<open>handleSubmit\<close> scales the entered amount by.  For the zero address
  the source calls \<open>ethers.parseEther\<close>, which is \<open>parseUnits\<close> with 18 decimals.
\<close>

definition submitDecimals :: "string \<Rightarrow> nat" where
  "submitDecimals tok =
     (if tok = ZeroAddress then 18
      else if tok = ''0x036CbD53842c5426634e7929541eC2318f3dCF7e'' then 6
      else if tok = ''0x9E12AD42c4E4d2acFBADE01a96446e48e6764B98'' then 18
      else 18)"

text \<open>
  The arguments of the \<open>createInvoice\<close> call: hash, token, amount in the smallest unit,
  validity, memo, logo and description.
\<close>

datatype create_call =
  CreateInvoice string string nat "int option" string string string

text \<open>
  \<open>handleSubmit\<close> gives the call it submits, or \<open>None\<close> when it stops before (no contract,
  no account, an amount that does not parse).  The fresh invoice hash and JavaScript's
  \<open>parseInt\<close> are supplied from outside.
\<close>

definition handleSubmit ::
  "ethers \<Rightarrow> (string \<Rightarrow> int option) \<Rightarrow> bool \<Rightarrow> string option \<Rightarrow> string \<Rightarrow> InvoiceFormData
     \<Rightarrow> create_call option"
where
  "handleSubmit lib parseInt contractReady addr newHash formData =
     (if \<not> contractReady \<or> \<not> truthy addr then None
      else
        (case parseUnits lib (InvoiceFormData.amount formData)
                (submitDecimals (InvoiceFormData.token formData)) of
           None \<Rightarrow> None
         | Some amountWei \<Rightarrow>
             Some (CreateInvoice newHash
                     (or_else (Some (InvoiceFormData.token formData))
                        (TokenOption.address USDC_TOKEN_BASE_SEPOLIA))
                     amountWei
                     (parseInt (validForSeconds formData))
                     (InvoiceFormData.memo formData)
                     (InvoiceFormData.logoURI formData)
                     (InvoiceFormData.description formData))))"

subsection \<open>Displaying an invoice amount\<close>

definition digit_char :: "nat \<Rightarrow> char" where
  "digit_char n = ''0123456789'' ! n"

function natToString :: "nat \<Rightarrow> string" where
  "natToString n =
     (if n < 10 then [digit_char n] else natToString (n div 10) @ [digit_char (n mod 10)])"
  by pat_completeness auto
termination
  by (relation "measure (\<lambda>n. n)") auto

declare natToString.simps [simp del]

text \<open>
  \<open>Number.prototype.toFixed\<close> on a non-negative value: the integer \<open>n\<close> nearest to
  \<open>x * 10^f\<close>, the larger one on a tie, printed with \<open>f\<close> fractional digits.  The value
  is an exact rational here; the source computes in double precision, which agrees
  wherever the quotient is representable, as it is for \<open>1000000 / 10^6\<close>.
\<close>

definition toFixed :: "rat \<Rightarrow> nat \<Rightarrow> string" where
  "toFixed x f =
     (let n = nat \<lfloor>x * 10 ^ f + 1 / 2\<rfloor>
      in if f = 0 then natToString n
         else natToString (n div 10 ^ f) @ ''.''
              @ replicate (f - length (natToString (n mod 10 ^ f))) (CHR ''0'')
              @ natToString (n mod 10 ^ f))"

text \<open>
  The amount line of the checkout page:
  \<open>tokenDecimals = tokenInfo?.decimals || 18\<close>, \<open>amount = Number(raw) / 10 ** tokenDecimals\<close>,
  shown as \<open>amount.toFixed(tokenDecimals === 6 ? 2 : 4)\<close> followed by the symbol.
\<close>

definition checkoutTokenDecimals :: "CheckoutNetworkConfig \<Rightarrow> string \<Rightarrow> nat" where
  "checkoutTokenDecimals cur tok =
     (case tokens cur tok of
        None \<Rightarrow> 18
      | Some tokenInfo \<Rightarrow>
          (if TokenInfo.decimals tokenInfo = 0 then 18 else TokenInfo.decimals tokenInfo))"

definition checkoutTokenSymbol :: "CheckoutNetworkConfig \<Rightarrow> string \<Rightarrow> string" where
  "checkoutTokenSymbol cur tok =
     (case tokens cur tok of
        None \<Rightarrow> ''Token''
      | Some tokenInfo \<Rightarrow>
          (if TokenInfo.symbol tokenInfo = [] then ''Token'' else TokenInfo.symbol tokenInfo))"

definition displayAmount :: "env \<Rightarrow> int \<Rightarrow> InvoiceData \<Rightarrow> string \<times> string" where
  "displayAmount e cid invd =
     (let cur = checkoutCurrentNetwork e cid;
          tokenDecimals = checkoutTokenDecimals cur (InvoiceData.token invd);
          amt = (of_nat (InvoiceData.amount invd) :: rat) / 10 ^ tokenDecimals
      in (toFixed amt (if tokenDecimals = 6 then 2 else 4),
          checkoutTokenSymbol cur (InvoiceData.token invd)))"

section \<open>Dashboard analytics\<close>

text \<open>
  A \<open>Date\<close> is its time value, milliseconds since the epoch.  The UTC accessors follow
  the proleptic Gregorian calendar.
\<close>

definition civil :: "int \<Rightarrow> int \<times> int \<times> int" where
  "civil days =
     (let z = days + 719468;
          era = z div 146097;
          doe = z mod 146097;
          yoe = (doe - doe div 1460 + doe div 36524 - doe div 146096) div 365;
          doy = doe - (365 * yoe + yoe div 4 - yoe div 100);
          mp = (5 * doy + 2) div 153;
          d = doy - (153 * mp + 2) div 5 + 1;
          m = (if mp < 10 then mp + 3 else mp - 9)
      in (if m \<le> 2 then yoe + era * 400 + 1 else yoe + era * 400, m, d))"

definition getUTCFullYear :: "int \<Rightarrow> int" where
  "getUTCFullYear ms = fst (civil (ms div 86400000))"

definition getUTCMonth :: "int \<Rightarrow> int" where
  "getUTCMonth ms = fst (snd (civil (ms div 86400000))) - 1"

definition getUTCDate :: "int \<Rightarrow> int" where
  "getUTCDate ms = snd (snd (civil (ms div 86400000)))"

text \<open>
  An invoice of the dashboard's list: the nine contract fields and the hash.  A bar of
  the chart has a label, a value (the field \<open>total\<close> here) and its date.  The sums are
  taken over exact rationals; the source adds double-precision quotients.
\<close>

record Invoice = InvoiceData +
  hash :: string

record AnalyticsBar =
  label :: string
  total :: rat
  date :: int

text \<open>
  The label functions go through \<open>toLocaleDateString\<close>, and the four window generators
  read the clock and the local time zone; both are given from outside, the generators
  as the date sequences they return at the moment of the call.
\<close>

record labels =
  getDayLabel :: "int \<Rightarrow> string"
  getDateLabel :: "int \<Rightarrow> string"
  getMonthLabel :: "int \<Rightarrow> string"

record windows =
  getCurrentWeekDays :: "int list"
  getPreviousWeekDays :: "int list"
  getLast30Days :: "int list"
  getLast12Months :: "int list"

definition sameUTCDay :: "int \<Rightarrow> int \<Rightarrow> bool" where
  "sameUTCDay paidDate targetDate =
     (getUTCFullYear paidDate = getUTCFullYear targetDate
      \<and> getUTCMonth paidDate = getUTCMonth targetDate
      \<and> getUTCDate paidDate = getUTCDate targetDate)"

definition sameUTCMonth :: "int \<Rightarrow> int \<Rightarrow> bool" where
  "sameUTCMonth paidDate targetDate =
     (getUTCFullYear paidDate = getUTCFullYear targetDate
      \<and> getUTCMonth paidDate = getUTCMonth targetDate)"

definition periodDates :: "windows \<Rightarrow> string \<Rightarrow> int list" where
  "periodDates win selectedPeriod =
     (if selectedPeriod = ''This Week'' \<or> selectedPeriod = ''Last Week''
      then (if selectedPeriod = ''This Week'' then getCurrentWeekDays win
            else getPreviousWeekDays win)
      else if selectedPeriod = ''Last 30 Days'' then getLast30Days win
      else if selectedPeriod = ''Last 12 Months'' then getLast12Months win
      else [])"

definition labelFunction :: "labels \<Rightarrow> string \<Rightarrow> int \<Rightarrow> string" where
  "labelFunction lb selectedPeriod =
     (if selectedPeriod = ''This Week'' \<or> selectedPeriod = ''Last Week'' then getDayLabel lb
      else if selectedPeriod = ''Last 30 Days'' then getDateLabel lb
      else if selectedPeriod = ''Last 12 Months'' then getMonthLabel lb
      else getDayLabel lb)"

text \<open>
  For any other period the source leaves \<open>compareFunction\<close> unassigned; \<open>dates\<close> is then
  empty and the function is never applied.
\<close>

definition compareFunction :: "string \<Rightarrow> int \<Rightarrow> int \<Rightarrow> bool" where
  "compareFunction selectedPeriod =
     (if selectedPeriod = ''This Week'' \<or> selectedPeriod = ''Last Week'' then sameUTCDay
      else if selectedPeriod = ''Last 30 Days'' then sameUTCDay
      else if selectedPeriod = ''Last 12 Months'' then sameUTCMonth
      else (\<lambda>paidDate targetDate. False))"

definition countedAsPaid :: "Invoice \<Rightarrow> bool" where
  "countedAsPaid invd = (isPaid invd \<and> paidAt invd \<noteq> 0 \<and> paidAt invd > 0)"

definition analyticsDecimals :: "string \<Rightarrow> nat" where
  "analyticsDecimals tok =
     (if tok = ''0x036CbD53842c5426634e7929541eC2318f3dCF7e'' then 6
      else if tok = ''0x9E12AD42c4E4d2acFBADE01a96446e48e6764B98'' then 18
      else 18)"

definition bucketTotal :: "string \<Rightarrow> Invoice list \<Rightarrow> int \<Rightarrow> rat" where
  "bucketTotal selectedPeriod invoiceList d =
     foldl (\<lambda>sum invd. sum + of_nat (InvoiceData.amount invd)
                              / 10 ^ analyticsDecimals (InvoiceData.token invd))
       0
       (filter (\<lambda>invd. compareFunction selectedPeriod (int (paidAt invd) * 1000) d)
          (filter countedAsPaid invoiceList))"

definition getAnalyticsData :: "labels \<Rightarrow> windows \<Rightarrow> string \<Rightarrow> Invoice list \<Rightarrow> AnalyticsBar list" where
  "getAnalyticsData lb win selectedPeriod invoiceList =
     map (\<lambda>d. \<lparr> label = labelFunction lb selectedPeriod d,
                total = bucketTotal selectedPeriod invoiceList d,
                date = d \<rparr>)
       (periodDates win selectedPeriod)"

section \<open>Notions used in the statements\<close>

text \<open>
  A network has a contract when its configured address is truthy, and an invoice is found
  on a network when the network has a contract and the probe of that contract returns a
  merchant other than the zero address.
\<close>

definition hasContract :: "CheckoutNetworkConfig \<Rightarrow> bool" where
  "hasContract n = truthy (CheckoutNetworkConfig.contractAddress n)"

definition foundOn :: "'w checkout_chain \<Rightarrow> 'w \<Rightarrow> string \<Rightarrow> CheckoutNetworkConfig \<Rightarrow> bool" where
  "foundOn ch w h n =
     (hasContract n \<and>
      (case invoices ch w (JsonRpcProvider (testRpcUrl (CheckoutNetworkConfig.chainId n)))
              (the (CheckoutNetworkConfig.contractAddress n)) h of
         None \<Rightarrow> False
       | Some testInv \<Rightarrow> fst testInv \<noteq> ZeroAddress))"

text \<open>The payments a tick of the poller is meant to execute, in list order.\<close>

definition overdueExecutable :: "int \<Rightarrow> nat set \<Rightarrow> PaymentData list \<Rightarrow> PaymentData list" where
  "overdueExecutable now executablePayments ps =
     filter (\<lambda>p. isPaymentOverdue now (PaymentData.scheduledTime p)
                 \<and> PaymentData.id p \<in> executablePayments) ps"

text \<open>
  The loaded payments: for each id below the payment count, the payment of the connected
  account when both reads succeed and the creator matches.
\<close>

definition userPayment ::
  "'w automation_chain \<Rightarrow> ethers \<Rightarrow> AutomationNetworkConfig \<Rightarrow> string \<Rightarrow> 'w \<Rightarrow> nat
     \<Rightarrow> PaymentData option"
where
  "userPayment ch lib cur addr w i =
     (case getPaymentDetails ch w i of
        None \<Rightarrow> None
      | Some d \<Rightarrow>
          (case getPaymentRecipients ch w i of
             None \<Rightarrow> None
           | Some rs \<Rightarrow>
               (if toLowerCase (PaymentDetails.creator d) = toLowerCase addr
                then Some (mkPayment lib cur i d rs) else None)))"

definition loadedPayments ::
  "'w automation_chain \<Rightarrow> ethers \<Rightarrow> AutomationNetworkConfig \<Rightarrow> string \<Rightarrow> 'w \<Rightarrow> nat list
     \<Rightarrow> PaymentData list"
where
  "loadedPayments ch lib cur addr w is = List.map_filter (userPayment ch lib cur addr w) is"

section \<open>Sample configurations and chains\<close>

text \<open>
  Two build environments (in the second the Base Sepolia invoice contract is not
  configured), an invoice in USDC, the empty answer of the contract for an unknown hash,
  and a chain whose world is the allowance granted to the invoice contract.  On this
  chain the invoice exists only in the contract at \<open>0xB\<close>, and a submitted transaction
  leaves the allowance as it was: approvals are not yet mined when \<open>writeContract\<close>
  returns.
\<close>

definition env0 :: env where
  "env0 = \<lparr> VITE_INVOICE_CONTRACT_ADDRESS_BASE_SEPOLIA = Some ''0xB'',
            VITE_BASEPAY_MORPH = Some ''0xM'',
            VITE_CROSSCHAIN_AUTOMATION_BASE_SEPOLIA = Some ''0xA'',
            VITE_CROSSCHAIN_AUTOMATION_MORPH_HOLESKY = None \<rparr>"

definition env1 :: env where
  "env1 = \<lparr> VITE_INVOICE_CONTRACT_ADDRESS_BASE_SEPOLIA = None,
            VITE_BASEPAY_MORPH = Some ''0xM'',
            VITE_CROSSCHAIN_AUTOMATION_BASE_SEPOLIA = Some ''0xA'',
            VITE_CROSSCHAIN_AUTOMATION_MORPH_HOLESKY = None \<rparr>"

definition usdc_invoice :: raw_invoice where
  "usdc_invoice = (''0xMerchant'', USDC_ADDRESS, 1000000, 0, False, ''memo'', [], [], 0)"

definition no_invoice :: raw_invoice where
  "no_invoice = (ZeroAddress, ZeroAddress, 0, 0, False, [], [], [], 0)"

definition sample_checkout_chain :: "int \<Rightarrow> nat checkout_chain" where
  "sample_checkout_chain providerChain =
     \<lparr> getNetwork = (\<lambda>w. Some providerChain),
       invoices = (\<lambda>w p a h. Some (if a = ''0xB'' then usdc_invoice else no_invoice)),
       getCode = (\<lambda>w p t. Some ''0x6080''),
       allowance = (\<lambda>w p t ownr s. Some w),
       writeContract = (\<lambda>w c. Some (''0xtx'', w)) \<rparr>"

definition sample_state :: "int \<Rightarrow> checkout_state" where
  "sample_state cid =
     \<lparr> checkout_state.address = Some ''0xPayer'', checkout_state.walletClient = True,
       checkout_state.chainId = cid, ethereum = True, checkout_state.hash = Some ''0xh'',
       invoiceData = Some (mappedInv usdc_invoice), contract = True \<rparr>"


lemmas sample_defs = env0_def env1_def usdc_invoice_def no_invoice_def sample_checkout_chain_def
  sample_state_def

text \<open>
  Four payments held by the automation contract: 0 and 2 created by the account
  \<open>0xabcd\<close> (in two spellings) and pending, 1 created by another account, 3 created by
  \<open>0xabcd\<close> and executed.  On the sample chain the submission of an execution throws
  for the listed ids and no confirmation ever resolves; the world is the allowance
  granted to the automation contract.
\<close>

definition sample_details :: "nat \<Rightarrow> PaymentDetails option" where
  "sample_details i =
     (if i = 0 then Some \<lparr> PaymentDetails.creator = ''0xABCD'', PaymentDetails.totalAmount = 2000000,
                           PaymentDetails.amountPerRecipient = 1000000,
                           PaymentDetails.scheduledTime = 100, PaymentDetails.executed = False \<rparr>
      else if i = 1 then Some \<lparr> PaymentDetails.creator = ''0xOther'', PaymentDetails.totalAmount = 2000000,
                           PaymentDetails.amountPerRecipient = 1000000,
                           PaymentDetails.scheduledTime = 200, PaymentDetails.executed = False \<rparr>
      else if i = 2 then Some \<lparr> PaymentDetails.creator = ''0xabcd'', PaymentDetails.totalAmount = 2000000,
                           PaymentDetails.amountPerRecipient = 1000000,
                           PaymentDetails.scheduledTime = 300, PaymentDetails.executed = False \<rparr>
      else if i = 3 then Some \<lparr> PaymentDetails.creator = ''0xABCD'', PaymentDetails.totalAmount = 2000000,
                           PaymentDetails.amountPerRecipient = 1000000,
                           PaymentDetails.scheduledTime = 50, PaymentDetails.executed = True \<rparr>
      else None)"

definition sample_automation_chain :: "nat list \<Rightarrow> nat automation_chain" where
  "sample_automation_chain failing =
     \<lparr> signerAvailable = (\<lambda>w. True),
       nextPaymentId = (\<lambda>w. Some 4),
       getPaymentDetails = (\<lambda>w. sample_details),
       getPaymentRecipients = (\<lambda>w i. Some [''0xR1'', ''0xR2'']),
       owner = (\<lambda>w. Some ''0xOwner''),
       authorizedControllers = (\<lambda>w a. Some False),
       executeScheduledPayment = (\<lambda>w i. if i \<in> set failing then None else Some (False, w)),
       tokenAllowance = (\<lambda>w t ownr s. Some w),
       tokenApprove = (\<lambda>w t s a. Some w),
       approveWait = (\<lambda>w. Some w) \<rparr>"

definition sample_wallet :: "string \<Rightarrow> wallet" where
  "sample_wallet a =
     \<lparr> isConnected = True, wallet.address = Some a, wallet.chainId = 84532,
       wallet.walletClient = True \<rparr>"

text \<open>
  A stand-in for the ethers library, defined on the amounts of the samples only, and
  the payment record the page builds for a sample id.
\<close>

definition sample_lib :: ethers where
  "sample_lib =
     \<lparr> formatUnits = (\<lambda>v d. if v = 2000000 \<and> d = 6 then ''2.0'' else ''1.0''),
       parseUnits = (\<lambda>s d. if s = ''1'' then Some (10 ^ d) else None) \<rparr>"

definition sample_payment :: "nat \<Rightarrow> PaymentData" where
  "sample_payment i =
     mkPayment sample_lib (automationCurrentNetwork env0 84532) i (the (sample_details i))
       [''0xR1'', ''0xR2'']"

lemmas automation_sample_defs = sample_details_def sample_automation_chain_def sample_wallet_def
  sample_lib_def sample_payment_def env0_def

text \<open>A filled-in invoice form, and \<open>parseInt\<close> on its validity field.\<close>

definition sample_form :: InvoiceFormData where
  "sample_form =
     \<lparr> InvoiceFormData.merchant = ''0xAbCd'', InvoiceFormData.token = USDC_ADDRESS,
       InvoiceFormData.amount = ''1'', validForSeconds = ''86400'',
       InvoiceFormData.memo = ''memo'', InvoiceFormData.logoURI = [],
       InvoiceFormData.description = [] \<rparr>"

definition sample_parseInt :: "string \<Rightarrow> int option" where
  "sample_parseInt s = (if s = ''86400'' then Some 86400 else None)"

text \<open>
  Two days of a week (14 and 15 November 2023, UTC), their labels, and an invoice of one
  USDC paid on the first of them.
\<close>

definition sample_labels :: labels where
  "sample_labels =
     \<lparr> getDayLabel = (\<lambda>d. if getUTCDate d = 14 then ''Tue'' else ''Wed''),
       getDateLabel = (\<lambda>d. if getUTCDate d = 14 then ''14'' else ''15''),
       getMonthLabel = (\<lambda>d. ''Nov'') \<rparr>"

definition sample_windows :: "int list \<Rightarrow> windows" where
  "sample_windows other =
     \<lparr> getCurrentWeekDays = [1700000000000, 1700086400000],
       getPreviousWeekDays = other,
       getLast30Days = other,
       getLast12Months = other \<rparr>"

definition sample_paid_invoice :: Invoice where
  "sample_paid_invoice =
     \<lparr> InvoiceData.merchant = ''0xMerchant'', InvoiceData.token = USDC_ADDRESS,
       InvoiceData.amount = 1000000, dueBy = 0, isPaid = True, InvoiceData.memo = ''memo'',
       InvoiceData.logoURI = [], InvoiceData.description = [], paidAt = 1700000100,
       Invoice.hash = ''0xh'' \<rparr>"

section \<open>Properties of the network registry\<close>

lemma NETWORK_CONFIGS_dom: "dom (NETWORK_CONFIGS e) = {84532, 2810}"
  by (auto simp: NETWORK_CONFIGS_def split: if_splits)

lemma CREATE_NETWORK_CONFIGS_dom: "dom (CREATE_NETWORK_CONFIGS e) = {84532, 2810}"
  by (auto simp: CREATE_NETWORK_CONFIGS_def split: if_splits)

text \<open>
  Claim C7.  For every integer chain id the registry lookup of the dashboard and of the
  invoice-creation page returns the table entry stored under that id when there is one,
  and the Base Sepolia entry (chain 84532) otherwise.  The fallback lookup itself is
  always defined, so no error arises, and the default entry carries a token: the
  dashboard's default names the USDC contract, the creation page's default has a
  non-empty list of supported tokens.
\<close>

theorem registry_resolve_total:
  "(\<forall>c. NETWORK_CONFIGS e cid = Some c \<longrightarrow> currentNetwork e cid = c)
   \<and> (NETWORK_CONFIGS e cid = None \<longrightarrow>
        NETWORK_CONFIGS e 84532 = Some (currentNetwork e cid)
        \<and> NetworkConfig.chainId (currentNetwork e cid) = 84532
        \<and> NetworkConfig.name (currentNetwork e cid) = ''Base Sepolia''
        \<and> TokenConfig.address (NetworkConfig.token (currentNetwork e cid)) \<noteq> [])
   \<and> (\<forall>c. CREATE_NETWORK_CONFIGS e cid = Some c \<longrightarrow> createCurrentNetwork e cid = c)
   \<and> (CREATE_NETWORK_CONFIGS e cid = None \<longrightarrow>
        CREATE_NETWORK_CONFIGS e 84532 = Some (createCurrentNetwork e cid)
        \<and> CreateNetworkConfig.chainId (createCurrentNetwork e cid) = 84532
        \<and> CreateNetworkConfig.name (createCurrentNetwork e cid) = ''Base Sepolia''
        \<and> supportedTokens (createCurrentNetwork e cid) \<noteq> [])"
  by (simp add: currentNetwork_def createCurrentNetwork_def NETWORK_CONFIGS_def
      CREATE_NETWORK_CONFIGS_def USDC_ADDRESS_def)

theorem registry_resolve_total_witness:
  "NETWORK_CONFIGS \<lparr> VITE_INVOICE_CONTRACT_ADDRESS_BASE_SEPOLIA = Some ''0xabc'',
       VITE_BASEPAY_MORPH = None, VITE_CROSSCHAIN_AUTOMATION_BASE_SEPOLIA = None,
       VITE_CROSSCHAIN_AUTOMATION_MORPH_HOLESKY = None \<rparr> 1 = None
   \<and> NetworkConfig.chainId (currentNetwork \<lparr> VITE_INVOICE_CONTRACT_ADDRESS_BASE_SEPOLIA = Some ''0xabc'',
       VITE_BASEPAY_MORPH = None, VITE_CROSSCHAIN_AUTOMATION_BASE_SEPOLIA = None,
       VITE_CROSSCHAIN_AUTOMATION_MORPH_HOLESKY = None \<rparr> 1) = 84532
   \<and> CREATE_NETWORK_CONFIGS \<lparr> VITE_INVOICE_CONTRACT_ADDRESS_BASE_SEPOLIA = Some ''0xabc'',
       VITE_BASEPAY_MORPH = None, VITE_CROSSCHAIN_AUTOMATION_BASE_SEPOLIA = None,
       VITE_CROSSCHAIN_AUTOMATION_MORPH_HOLESKY = None \<rparr> 1 = None
   \<and> supportedTokens (createCurrentNetwork \<lparr> VITE_INVOICE_CONTRACT_ADDRESS_BASE_SEPOLIA = Some ''0xabc'',
       VITE_BASEPAY_MORPH = None, VITE_CROSSCHAIN_AUTOMATION_BASE_SEPOLIA = None,
       VITE_CROSSCHAIN_AUTOMATION_MORPH_HOLESKY = None \<rparr> 1) \<noteq> []
   \<and> NetworkConfig.name (currentNetwork \<lparr> VITE_INVOICE_CONTRACT_ADDRESS_BASE_SEPOLIA = Some ''0xabc'',
       VITE_BASEPAY_MORPH = None, VITE_CROSSCHAIN_AUTOMATION_BASE_SEPOLIA = None,
       VITE_CROSSCHAIN_AUTOMATION_MORPH_HOLESKY = None \<rparr> 2810) = ''Morph Holesky''"
  using registry_resolve_total
    [of "\<lparr> VITE_INVOICE_CONTRACT_ADDRESS_BASE_SEPOLIA = Some ''0xabc'',
       VITE_BASEPAY_MORPH = None, VITE_CROSSCHAIN_AUTOMATION_BASE_SEPOLIA = None,
       VITE_CROSSCHAIN_AUTOMATION_MORPH_HOLESKY = None \<rparr>" 1]
    registry_resolve_total
    [of "\<lparr> VITE_INVOICE_CONTRACT_ADDRESS_BASE_SEPOLIA = Some ''0xabc'',
       VITE_BASEPAY_MORPH = None, VITE_CROSSCHAIN_AUTOMATION_BASE_SEPOLIA = None,
       VITE_CROSSCHAIN_AUTOMATION_MORPH_HOLESKY = None \<rparr>" 2810]
  by (simp add: NETWORK_CONFIGS_def CREATE_NETWORK_CONFIGS_def)

section \<open>The samples evaluated\<close>

lemma automation_base:
  "automationCurrentNetwork env0 84532 =
     \<lparr> AutomationNetworkConfig.chainId = 84532,
                  AutomationNetworkConfig.name = ''Base Sepolia'',
                  AutomationNetworkConfig.contractAddress = ''0xA'',
                  AutomationNetworkConfig.token =
                    \<lparr> TokenConfig.address = USDC_ADDRESS, TokenConfig.symbol = ''USDC'',
                      TokenConfig.decimals = 6, TokenConfig.logo = USDC_LOGO \<rparr> \<rparr>"
  by (simp add: automationCurrentNetwork_def AUTOMATION_NETWORK_CONFIGS_def env0_def)

lemma sample_getSigner:
  "getSigner (sample_automation_chain failing) (sample_wallet a) (automationCurrentNetwork env0 84532) w
     = (a \<noteq> [])"
  by (simp add: getSigner_def sample_automation_chain_def sample_wallet_def automation_base)

lemma lower1: "toLowerCase ''0xAbCd'' = ''0xabcd''" "toLowerCase ''0xABCD'' = ''0xabcd''"
  "toLowerCase ''0xabcd'' = ''0xabcd''" "toLowerCase ''0xOther'' = ''0xother''"
  "toLowerCase ''0xOwner'' = ''0xowner''" "toLowerCase ''0xEEEE'' = ''0xeeee''"
  by (simp_all add: toLowerCase_def lower_char_def)

lemma upt4: "[0..<4] = [0, 1, 2, 3::nat]"
  by (simp add: upt_rec)

lemma sample_fetch:
  "fetchPayments (sample_automation_chain failing) sample_lib (automationCurrentNetwork env0 84532)
       ''0xAbCd'' w [0..<4] ([], []) =
     ([sample_payment 0, sample_payment 2], [sample_payment 3])"
  by (simp add: upt4 sample_automation_chain_def sample_details_def sample_payment_def lower1)

lemma sample_sort:
  "sortNewestFirst [sample_payment 0, sample_payment 2] = [sample_payment 2, sample_payment 0]"
  "sortNewestFirst [sample_payment 3] = [sample_payment 3]"
  by (simp_all add: sortNewestFirst_def sample_payment_def sample_details_def mkPayment_def)

lemma sample_load:
  "loadPaymentData (sample_automation_chain failing) sample_lib env0 (sample_wallet ''0xAbCd'') 0 =
     Some ([sample_payment 2, sample_payment 0], [sample_payment 3])"
proof -
  have c: "wallet.chainId (sample_wallet ''0xAbCd'') = 84532"
    and a: "wallet.address (sample_wallet ''0xAbCd'') = Some ''0xAbCd''"
    and i: "isConnected (sample_wallet ''0xAbCd'')" "walletClient (sample_wallet ''0xAbCd'')"
    by (simp_all add: sample_wallet_def)
  have n: "nextPaymentId (sample_automation_chain failing) 0 = Some 4"
    by (simp add: sample_automation_chain_def)
  have ca: "AutomationNetworkConfig.contractAddress (automationCurrentNetwork env0 84532) = ''0xA''"
    by (simp add: automation_base)
  show ?thesis
    unfolding loadPaymentData_def c Let_def
    by (simp add: a i n ca sample_getSigner sample_fetch sample_sort)
qed


lemma sample_overdue:
  "isPaymentOverdue 1000000 (PaymentData.scheduledTime (sample_payment 0))"
  "isPaymentOverdue 1000000 (PaymentData.scheduledTime (sample_payment 2))"
  by (simp_all add: isPaymentOverdue_def sample_payment_def sample_details_def mkPayment_def)

lemma sample_ids:
  "PaymentData.id (sample_payment i) = i"
  by (simp add: sample_payment_def mkPayment_def)

lemma sample_canExecute:
  "canExecutePayment (sample_automation_chain failing) (sample_wallet ''0xAbCd'')
     (automationCurrentNetwork env0 84532) w 0"
  "canExecutePayment (sample_automation_chain failing) (sample_wallet ''0xAbCd'')
     (automationCurrentNetwork env0 84532) w 2"
  "\<not> canExecutePayment (sample_automation_chain failing) (sample_wallet ''0xEEEE'')
     (automationCurrentNetwork env0 84532) w 0"
  "\<not> canExecutePayment (sample_automation_chain failing) (sample_wallet ''0xEEEE'')
     (automationCurrentNetwork env0 84532) w 2"
  by (simp_all add: canExecutePayment_def sample_getSigner)
     (simp_all add: sample_automation_chain_def sample_wallet_def sample_details_def lower1)

lemma sample_connected:
  "isConnected (sample_wallet a)" "wallet.address (sample_wallet a) = Some a"
  by (simp_all add: sample_wallet_def)

lemma sample_executable:
  "checkExecutablePayments (sample_automation_chain failing) (sample_wallet ''0xAbCd'')
       (automationCurrentNetwork env0 84532) 1000000 w [sample_payment 2, sample_payment 0]
     = Some {0, 2}"
  "checkExecutablePayments (sample_automation_chain failing) (sample_wallet ''0xEEEE'')
       (automationCurrentNetwork env0 84532) 1000000 w [sample_payment 2, sample_payment 0]
     = Some {}"
  by (simp_all add: checkExecutablePayments_def sample_connected sample_overdue sample_ids
      sample_canExecute)

lemma sample_tick:
  "autoExecuteOverduePayments (sample_automation_chain failing) (sample_wallet ''0xAbCd'')
       (automationCurrentNetwork env0 84532) 1000000 {0, 2}
       [sample_payment 2, sample_payment 0] 0
     = (if 2 \<in> set failing then ([], True, 0)
        else if 0 \<in> set failing then ([(2, False)], True, 0)
        else ([(2, False), (0, False)], False, 0))"
proof -
  have c: "isConnected (sample_wallet ''0xAbCd'')" "truthy (wallet.address (sample_wallet ''0xAbCd''))"
    by (simp_all add: sample_wallet_def)
  have e: "executeScheduledPayment (sample_automation_chain failing) w i =
             (if i \<in> set failing then None else Some (False, w))" for w i
    by (simp add: sample_automation_chain_def)
  show ?thesis
    by (simp add: autoExecuteOverduePayments_def c sample_overdue sample_ids sample_getSigner e)
qed

lemma sample_overdueExecutable:
  "overdueExecutable 1000000 {0, 2} [sample_payment 2, sample_payment 0] =
     [sample_payment 2, sample_payment 0]"
  by (simp add: overdueExecutable_def sample_overdue sample_ids)

lemma natToString_digits:
  "natToString 0 = ''0''" "natToString 1 = ''1''" "natToString (Suc 0) = ''1''"
  by (simp_all add: natToString.simps digit_char_def)

lemma toFixed_one: "toFixed 1 2 = ''1.00''"
proof -
  have "\<lfloor>(1 :: rat) * 10 ^ 2 + 1 / 2\<rfloor> = 100"
    by (rule floor_unique) simp_all
  then show ?thesis
    by (simp add: toFixed_def natToString_digits)
qed

lemma sample_days:
  "getUTCFullYear 1700000000000 = 2023" "getUTCMonth 1700000000000 = 10"
  "getUTCDate 1700000000000 = 14"
  "getUTCFullYear 1700086400000 = 2023" "getUTCMonth 1700086400000 = 10"
  "getUTCDate 1700086400000 = 15"
  "getUTCFullYear 1700000100000 = 2023" "getUTCMonth 1700000100000 = 10"
  "getUTCDate 1700000100000 = 14"
  by code_simp+

section \<open>Provider resolution\<close>

lemma checkoutCurrentNetwork_cases:
  "checkoutCurrentNetwork e cid =
     (if cid = 2810 then CHECKOUT_MORPH_HOLESKY e else CHECKOUT_BASE_SEPOLIA e)"
  by (simp add: checkoutCurrentNetwork_def CHECKOUT_NETWORK_CONFIGS_def)

lemma checkout_chainId:
  "CheckoutNetworkConfig.chainId (checkoutCurrentNetwork e cid) = (if cid = 2810 then 2810 else 84532)"
  by (simp add: checkoutCurrentNetwork_cases CHECKOUT_MORPH_HOLESKY_def CHECKOUT_BASE_SEPOLIA_def)





section \<open>Allowance and approval\<close>

text \<open>
  \<open>approveToken\<close> with an allowance below the required amount: one approval, for exactly
  the required amount, then the confirmation, then a second read of the allowance, and
  the verification failure when that is still short.
\<close>

lemma approveToken_insufficient:
  assumes "truthy (wallet.address wl)"
    and "tokenAllowance ch w tok (the (wallet.address wl))
           (AutomationNetworkConfig.contractAddress cur) = Some a"
    and "a < amountRaw"
    and "tokenApprove ch w tok (AutomationNetworkConfig.contractAddress cur) amountRaw = Some w1"
    and "approveWait ch w1 = Some w2"
    and "tokenAllowance ch w2 tok (the (wallet.address wl))
           (AutomationNetworkConfig.contractAddress cur) = Some a'"
  shows "approveToken ch wl cur tok amountRaw w =
           ((if a' < amountRaw then Inl (VerificationFailed amountRaw a') else Inr ()),
            [(AutomationNetworkConfig.contractAddress cur, amountRaw)], w2)"
  using assms by (simp add: approveToken_def Let_def)

lemma approveToken_sufficient:
  assumes "truthy (wallet.address wl)"
    and "tokenAllowance ch w tok (the (wallet.address wl))
           (AutomationNetworkConfig.contractAddress cur) = Some a"
    and "amountRaw \<le> a"
  shows "approveToken ch wl cur tok amountRaw w = (Inr (), [], w)"
  using assms by (simp add: approveToken_def)

text \<open>
  \<open>handlePay\<close> with an allowance below the invoice amount: once the approval is
  submitted the flow continues with \<open>payInvoice\<close>; the allowance is not read again.
\<close>

lemma handlePay_approval_not_verified:
  assumes "contract st" "truthy (checkout_state.address st)" "invoiceData st = Some invd"
    and "InvoiceData.token invd \<noteq> ETH_ADDRESS" "getNetwork ch w = Some providerChain"
    and "cur = checkoutCurrentNetwork e (checkout_state.chainId st)"
    and "paymentProvider providerChain (checkout_state.chainId st) cur = Some pp"
    and "getCode ch w pp (InvoiceData.token invd) = Some code" "code \<noteq> ''0x''"
    and "allowance ch w pp (InvoiceData.token invd) (the (checkout_state.address st))
           (CheckoutNetworkConfig.contractAddress cur) = Some a"
    and "a < InvoiceData.amount invd" "checkout_state.walletClient st"
    and "writeContract ch w (Approve (InvoiceData.token invd)
           (CheckoutNetworkConfig.contractAddress cur) (InvoiceData.amount invd)) = Some (h, w')"
  shows "handlePay ch e st w =
           payStep ch st cur invd
             [Approve (InvoiceData.token invd) (CheckoutNetworkConfig.contractAddress cur)
                (InvoiceData.amount invd)] w'"
  using assms by (simp add: handlePay_def Let_def)

lemma handlePay_sufficient:
  assumes "contract st" "truthy (checkout_state.address st)" "invoiceData st = Some invd"
    and "InvoiceData.token invd \<noteq> ETH_ADDRESS" "getNetwork ch w = Some providerChain"
    and "cur = checkoutCurrentNetwork e (checkout_state.chainId st)"
    and "paymentProvider providerChain (checkout_state.chainId st) cur = Some pp"
    and "getCode ch w pp (InvoiceData.token invd) = Some code" "code \<noteq> ''0x''"
    and "allowance ch w pp (InvoiceData.token invd) (the (checkout_state.address st))
           (CheckoutNetworkConfig.contractAddress cur) = Some a"
    and "InvoiceData.amount invd \<le> a" "checkout_state.walletClient st"
  shows "fst (snd (handlePay ch e st w)) =
           [PayInvoice (CheckoutNetworkConfig.contractAddress cur) (checkout_state.hash st) 0]"
  using assms by (simp add: handlePay_def payStep_def Let_def split: option.splits)

text \<open>
  Claim C2 at a concrete input.  The payer's allowance is 0, the invoice asks for
  1000000 units of USDC, and the allowance is still 0 after the approval was submitted.
  \<open>handlePay\<close> requests the approval and then the payment, and reports success.
\<close>

theorem handlePay_pays_after_unverified_approval:
  "handlePay (sample_checkout_chain 84532) env0 (sample_state 84532) 0 =
     (PaymentSuccessful,
      [Approve USDC_ADDRESS (Some ''0xB'') 1000000, PayInvoice (Some ''0xB'') (Some ''0xh'') 0],
      0)
   \<and> allowance (sample_checkout_chain 84532) 0 BrowserProvider USDC_ADDRESS ''0xPayer''
        (Some ''0xB'') = Some 0"
  by (simp add: sample_defs handlePay_def payStep_def paymentProvider_def checkout_chainId
      checkoutCurrentNetwork_cases CHECKOUT_BASE_SEPOLIA_def ZeroAddress_def ETH_ADDRESS_def
      USDC_ADDRESS_def)

text \<open>
  In that run the payment is the second of two requests, sent although the allowance
  the chain reports afterwards is still below the amount.
\<close>

theorem handlePay_pays_after_unverified_approval_witness:
  "fst (handlePay (sample_checkout_chain 84532) env0 (sample_state 84532) 0) = PaymentSuccessful
   \<and> length (fst (snd (handlePay (sample_checkout_chain 84532) env0 (sample_state 84532) 0))) = 2
   \<and> allowance (sample_checkout_chain 84532)
        (snd (snd (handlePay (sample_checkout_chain 84532) env0 (sample_state 84532) 0)))
        BrowserProvider USDC_ADDRESS ''0xPayer'' (Some ''0xB'') = Some 0"
  using handlePay_pays_after_unverified_approval by simp

text \<open>
  Claim C3.  When the allowance read by the payment flow already covers the invoice
  amount, \<open>handlePay\<close> requests exactly one write from the wallet, the \<open>payInvoice\<close>
  call, and no approval.  When the allowance read by \<open>approveToken\<close> already covers
  the required amount, it submits nothing and leaves the world as it is, so calling it
  again with the same amount gives the same result.
\<close>

theorem sufficient_allowance_single_write:
  "(contract st \<and> truthy (checkout_state.address st) \<and> invoiceData st = Some invd
      \<and> InvoiceData.token invd \<noteq> ETH_ADDRESS \<and> getNetwork ch w = Some providerChain
      \<and> cur = checkoutCurrentNetwork e (checkout_state.chainId st)
      \<and> paymentProvider providerChain (checkout_state.chainId st) cur = Some pp
      \<and> getCode ch w pp (InvoiceData.token invd) = Some code \<and> code \<noteq> ''0x''
      \<and> allowance ch w pp (InvoiceData.token invd) (the (checkout_state.address st))
           (CheckoutNetworkConfig.contractAddress cur) = Some a
      \<and> InvoiceData.amount invd \<le> a \<and> checkout_state.walletClient st
    \<longrightarrow> fst (snd (handlePay ch e st w)) =
          [PayInvoice (CheckoutNetworkConfig.contractAddress cur) (checkout_state.hash st) 0])
   \<and> (truthy (wallet.address wl)
      \<and> tokenAllowance ach aw tok (the (wallet.address wl))
           (AutomationNetworkConfig.contractAddress acur) = Some a'
      \<and> amountRaw \<le> a'
    \<longrightarrow> approveToken ach wl acur tok amountRaw aw = (Inr (), [], aw)
        \<and> approveToken ach wl acur tok amountRaw
             (snd (snd (approveToken ach wl acur tok amountRaw aw))) = (Inr (), [], aw))"
proof (intro conjI impI)
  assume "contract st \<and> truthy (checkout_state.address st) \<and> invoiceData st = Some invd
      \<and> InvoiceData.token invd \<noteq> ETH_ADDRESS \<and> getNetwork ch w = Some providerChain
      \<and> cur = checkoutCurrentNetwork e (checkout_state.chainId st)
      \<and> paymentProvider providerChain (checkout_state.chainId st) cur = Some pp
      \<and> getCode ch w pp (InvoiceData.token invd) = Some code \<and> code \<noteq> ''0x''
      \<and> allowance ch w pp (InvoiceData.token invd) (the (checkout_state.address st))
           (CheckoutNetworkConfig.contractAddress cur) = Some a
      \<and> InvoiceData.amount invd \<le> a \<and> checkout_state.walletClient st"
  then show "fst (snd (handlePay ch e st w)) =
          [PayInvoice (CheckoutNetworkConfig.contractAddress cur) (checkout_state.hash st) 0]"
    by (elim conjE)
       (rule handlePay_sufficient [of st invd ch w providerChain cur e pp code a], assumption+)
next
  assume h: "truthy (wallet.address wl)
      \<and> tokenAllowance ach aw tok (the (wallet.address wl))
           (AutomationNetworkConfig.contractAddress acur) = Some a'
      \<and> amountRaw \<le> a'"
  then have eq: "approveToken ach wl acur tok amountRaw aw = (Inr (), [], aw)"
    by (elim conjE) (rule approveToken_sufficient [of wl ach aw tok acur a' amountRaw], assumption+)
  then show "approveToken ach wl acur tok amountRaw aw = (Inr (), [], aw)"
    and "approveToken ach wl acur tok amountRaw
           (snd (snd (approveToken ach wl acur tok amountRaw aw))) = (Inr (), [], aw)"
    by simp_all
qed

text \<open>
  An invoice of 1000000 units against an allowance of 1000000, and an approval of 5
  against an allowance of 5.
\<close>

theorem sufficient_allowance_single_write_witness:
  "handlePay (sample_checkout_chain 84532) env0 (sample_state 84532) 1000000 =
     (PaymentSuccessful, [PayInvoice (Some ''0xB'') (Some ''0xh'') 0], 1000000)
   \<and> approveToken (sample_automation_chain []) (sample_wallet ''0xAbCd'')
       (automationCurrentNetwork env0 84532) USDC_ADDRESS 5 5 = (Inr (), [], 5)"
  using sufficient_allowance_single_write
          [of "sample_state 84532" "mappedInv usdc_invoice" "sample_checkout_chain 84532" 1000000
              84532 "checkoutCurrentNetwork env0 84532" env0 BrowserProvider "''0x6080''" 1000000
              "sample_wallet ''0xAbCd''" "sample_automation_chain []" 5 USDC_ADDRESS
              "automationCurrentNetwork env0 84532" 5 5]
  by (simp add: sample_defs handlePay_def payStep_def paymentProvider_def checkout_chainId
      checkoutCurrentNetwork_cases CHECKOUT_BASE_SEPOLIA_def ZeroAddress_def ETH_ADDRESS_def
      USDC_ADDRESS_def sample_wallet_def sample_automation_chain_def approveToken_def)

section \<open>Invoice lookup across networks\<close>

lemma findOnOtherNetworks_none:
  "find (foundOn ch w h) ns = None \<Longrightarrow>
     findOnOtherNetworks ch w h ns = (None, map CheckoutNetworkConfig.chainId (filter hasContract ns))"
  by (induction ns) (auto simp: foundOn_def hasContract_def split: option.splits if_splits)

lemma findOnOtherNetworks_some:
  "find (foundOn ch w h) ns = Some n \<Longrightarrow>
     fst (findOnOtherNetworks ch w h ns) = Some (CheckoutNetworkConfig.name n)"
  by (induction ns)
     (auto simp: foundOn_def hasContract_def split: option.splits if_splits prod.splits)

lemma otherNetworks_named:
  "n \<in> set (otherNetworks e cur) \<Longrightarrow> CheckoutNetworkConfig.name n \<noteq> []"
  by (auto simp: otherNetworks_def CHECKOUT_NETWORK_CONFIGS_def CHECKOUT_MORPH_HOLESKY_def
      CHECKOUT_BASE_SEPOLIA_def split: if_splits)

text \<open>
  Claim C4, as the code has it.  When the active network answers with the zero merchant,
  the lookup probes the other networks of the registry that have a contract address
  configured.  It reports not-found only after probing every one of them, and when the
  invoice is found on one of them it reports the name of the first such network.
\<close>

theorem secondary_lookup_before_not_found:
  assumes "truthy (checkout_state.hash st)" and "ethereum st"
    and "getNetwork ch w = Some providerChain"
    and "cur = checkoutCurrentNetwork e (checkout_state.chainId st)"
    and "truthy (CheckoutNetworkConfig.contractAddress cur)"
    and "invoices ch w (fetchProvider providerChain cur)
           (the (CheckoutNetworkConfig.contractAddress cur)) (the (checkout_state.hash st)) = Some invd"
    and "fst invd = ZeroAddress"
  shows "(find (foundOn ch w (the (checkout_state.hash st))) (otherNetworks e cur) = None \<longrightarrow>
            fetchInvoice ch e st w =
              (InvoiceNotFound (CheckoutNetworkConfig.name cur),
               Some (fetchProvider providerChain cur),
               map CheckoutNetworkConfig.chainId (filter hasContract (otherNetworks e cur))))
       \<and> (\<forall>n. find (foundOn ch w (the (checkout_state.hash st))) (otherNetworks e cur) = Some n \<longrightarrow>
            fst (fetchInvoice ch e st w) = FoundOnOtherNetwork (CheckoutNetworkConfig.name n))"
proof (intro conjI allI impI)
  assume none: "find (foundOn ch w (the (checkout_state.hash st))) (otherNetworks e cur) = None"
  show "fetchInvoice ch e st w =
          (InvoiceNotFound (CheckoutNetworkConfig.name cur),
           Some (fetchProvider providerChain cur),
           map CheckoutNetworkConfig.chainId (filter hasContract (otherNetworks e cur)))"
    using assms findOnOtherNetworks_none [OF none]
    by (simp add: fetchInvoice_def Let_def)
next
  fix n
  assume some: "find (foundOn ch w (the (checkout_state.hash st))) (otherNetworks e cur) = Some n"
  then have "n \<in> set (otherNetworks e cur)"
    by (auto simp: find_Some_iff)
  then have named: "CheckoutNetworkConfig.name n \<noteq> []"
    by (rule otherNetworks_named)
  obtain t where "findOnOtherNetworks ch w (the (checkout_state.hash st)) (otherNetworks e cur)
                    = (Some (CheckoutNetworkConfig.name n), t)"
    using findOnOtherNetworks_some [OF some] by (cases "findOnOtherNetworks ch w (the (checkout_state.hash st)) (otherNetworks e cur)") auto
  then show "fst (fetchInvoice ch e st w) = FoundOnOtherNetwork (CheckoutNetworkConfig.name n)"
    using assms named by (simp add: fetchInvoice_def Let_def)
qed

text \<open>
  The invoice found on Base Sepolia from Morph Holesky, and the not-found report when
  Base Sepolia has no contract address.
\<close>

theorem secondary_lookup_before_not_found_witness:
  "fetchInvoice (sample_checkout_chain 2810) env0 (sample_state 2810) 0 =
     (FoundOnOtherNetwork ''Base Sepolia'', Some BrowserProvider, [84532])
   \<and> fetchInvoice (sample_checkout_chain 2810) env1 (sample_state 2810) 0 =
     (InvoiceNotFound ''Morph Holesky'', Some BrowserProvider,
      map CheckoutNetworkConfig.chainId
        (filter hasContract (otherNetworks env1 (checkoutCurrentNetwork env1 2810))))"
  using secondary_lookup_before_not_found
          [of "sample_state 2810" "sample_checkout_chain 2810" 0 2810
              "checkoutCurrentNetwork env0 2810" env0 no_invoice]
        secondary_lookup_before_not_found
          [of "sample_state 2810" "sample_checkout_chain 2810" 0 2810
              "checkoutCurrentNetwork env1 2810" env1 no_invoice]
  by (simp add: sample_defs fetchInvoice_def fetchProvider_def otherNetworks_def
      checkoutCurrentNetwork_cases CHECKOUT_NETWORK_CONFIGS_def CHECKOUT_BASE_SEPOLIA_def
      CHECKOUT_MORPH_HOLESKY_def ZeroAddress_def hasContract_def foundOn_def testRpcUrl_def)

text \<open>
  Morph Holesky is active and the Base Sepolia contract address is not configured:
  Base Sepolia is another registered network, no lookup is attempted on it, and the
  page reports not-found.
\<close>

theorem secondary_lookup_skips_unconfigured_counterexample:
  "map CheckoutNetworkConfig.chainId (otherNetworks env1 (checkoutCurrentNetwork env1 2810)) = [84532]
   \<and> fetchInvoice (sample_checkout_chain 2810) env1 (sample_state 2810) 0 =
       (InvoiceNotFound ''Morph Holesky'', Some BrowserProvider, [])"
  by (simp add: sample_defs fetchInvoice_def fetchProvider_def otherNetworks_def
      checkoutCurrentNetwork_cases CHECKOUT_NETWORK_CONFIGS_def CHECKOUT_BASE_SEPOLIA_def
      CHECKOUT_MORPH_HOLESKY_def ZeroAddress_def)

section \<open>The poller\<close>

text \<open>
  What the loop submits is an initial segment of the overdue, executable payments in
  list order, cut short exactly when the batch-error handler is reached; when neither
  \<open>getSigner\<close> nor a submission throws, it is all of them.
\<close>

lemma autoExecuteLoop_prefix:
  "\<exists>rest. map PaymentData.id (overdueExecutable now ex ps) =
            map fst (fst (autoExecuteLoop ch wl cur now ex ps w)) @ rest
          \<and> (fst (snd (autoExecuteLoop ch wl cur now ex ps w)) \<longrightarrow> rest \<noteq> [])"
proof (induction ps arbitrary: w)
  case Nil
  show ?case by (simp add: overdueExecutable_def)
next
  case (Cons p ps)
  show ?case
  proof (cases "isPaymentOverdue now (PaymentData.scheduledTime p) \<and> PaymentData.id p \<in> ex")
    case False
    then show ?thesis using Cons [of w] by (auto simp: overdueExecutable_def)
  next
    case elig: True
    show ?thesis
    proof (cases "getSigner ch wl cur w")
      case False
      then show ?thesis using elig by (simp add: overdueExecutable_def)
    next
      case signer: True
      show ?thesis
      proof (cases "executeScheduledPayment ch w (PaymentData.id p)")
        case None
        then show ?thesis using elig signer by (simp add: overdueExecutable_def)
      next
        case (Some r)
        obtain c w' where r: "r = (c, w')" by (cases r)
        from Cons [of w'] obtain rest where
          "map PaymentData.id (overdueExecutable now ex ps) =
             map fst (fst (autoExecuteLoop ch wl cur now ex ps w')) @ rest
           \<and> (fst (snd (autoExecuteLoop ch wl cur now ex ps w')) \<longrightarrow> rest \<noteq> [])"
          by blast
        then show ?thesis using elig signer Some r
          by (auto simp: overdueExecutable_def split: prod.splits)
      qed
    qed
  qed
qed

lemma autoExecuteLoop_all:
  assumes "\<And>w'. getSigner ch wl cur w'"
    and "\<And>w' p. p \<in> set (overdueExecutable now ex ps) \<Longrightarrow>
           executeScheduledPayment ch w' (PaymentData.id p) \<noteq> None"
  shows "map fst (fst (autoExecuteLoop ch wl cur now ex ps w)) =
           map PaymentData.id (overdueExecutable now ex ps)
         \<and> \<not> fst (snd (autoExecuteLoop ch wl cur now ex ps w))"
  using assms
proof (induction ps arbitrary: w)
  case Nil
  show ?case by (simp add: overdueExecutable_def)
next
  case (Cons p ps)
  have ih: "\<And>w'. map fst (fst (autoExecuteLoop ch wl cur now ex ps w')) =
           map PaymentData.id (overdueExecutable now ex ps)
         \<and> \<not> fst (snd (autoExecuteLoop ch wl cur now ex ps w'))"
    using Cons by (simp add: overdueExecutable_def)
  show ?case
  proof (cases "isPaymentOverdue now (PaymentData.scheduledTime p) \<and> PaymentData.id p \<in> ex")
    case False
    then show ?thesis using ih [of w] by (auto simp: overdueExecutable_def)
  next
    case elig: True
    then have "executeScheduledPayment ch w (PaymentData.id p) \<noteq> None"
      using Cons.prems(2) [of p w] by (simp add: overdueExecutable_def)
    then obtain c w' where "executeScheduledPayment ch w (PaymentData.id p) = Some (c, w')"
      by (cases "executeScheduledPayment ch w (PaymentData.id p)") auto
    then show ?thesis using elig Cons.prems(1) [of w] ih [of w']
      by (auto simp: overdueExecutable_def split: prod.splits)
  qed
qed


text \<open>
  Claim C5 at a concrete input.  Payments 2 and 0 are overdue and in the executable
  set; the submission for 2 throws and the one for 0 would succeed.  The tick ends in
  the batch-error handler with nothing submitted: payment 0 is not considered again
  in that tick.
\<close>

theorem poller_tick_aborts_after_failed_submission:
  "map PaymentData.id (overdueExecutable 1000000 {0, 2} [sample_payment 2, sample_payment 0]) = [2, 0]
   \<and> executeScheduledPayment (sample_automation_chain [2]) 0 2 = None
   \<and> executeScheduledPayment (sample_automation_chain [2]) 0 0 = Some (False, 0)
   \<and> autoExecuteOverduePayments (sample_automation_chain [2]) (sample_wallet ''0xAbCd'')
       (automationCurrentNetwork env0 84532) 1000000 {0, 2}
       [sample_payment 2, sample_payment 0] 0
     = ([], True, 0)"
  by (simp add: sample_tick sample_overdueExecutable sample_ids)
     (simp add: sample_automation_chain_def)

text \<open>The same tick, read off its result: no submission, and the batch-error flag.\<close>

theorem poller_tick_aborts_after_failed_submission_witness:
  "fst (autoExecuteOverduePayments (sample_automation_chain [2]) (sample_wallet ''0xAbCd'')
         (automationCurrentNetwork env0 84532) 1000000 {0, 2}
         [sample_payment 2, sample_payment 0] 0) = []
   \<and> fst (snd (autoExecuteOverduePayments (sample_automation_chain [2]) (sample_wallet ''0xAbCd'')
         (automationCurrentNetwork env0 84532) 1000000 {0, 2}
         [sample_payment 2, sample_payment 0] 0))"
  using poller_tick_aborts_after_failed_submission by simp

section \<open>Executable payments\<close>

lemma executableLoop_eq:
  "executableLoop ch wl cur now w ps acc =
     acc \<union> {PaymentData.id p | p. p \<in> set ps
                \<and> isPaymentOverdue now (PaymentData.scheduledTime p)
                \<and> canExecutePayment ch wl cur w (PaymentData.id p)}"
  by (induction ps arbitrary: acc) auto

lemma canExecutePayment_creator:
  assumes "isConnected wl" "truthy (wallet.address wl)" "getSigner ch wl cur w"
    and "getPaymentDetails ch w i = Some d"
    and "toLowerCase (PaymentDetails.creator d) = toLowerCase (the (wallet.address wl))"
  shows "canExecutePayment ch wl cur w i"
  using assms by (simp add: canExecutePayment_def)

lemma canExecutePayment_unrelated:
  assumes "getPaymentDetails ch w i = Some d"
    and "toLowerCase (PaymentDetails.creator d) \<noteq> toLowerCase (the (wallet.address wl))"
    and "\<forall>ownr. owner ch w = Some ownr \<longrightarrow> toLowerCase ownr \<noteq> toLowerCase (the (wallet.address wl))"
    and "authorizedControllers ch w (the (wallet.address wl)) \<noteq> Some True"
  shows "\<not> canExecutePayment ch wl cur w i"
  using assms by (auto simp: canExecutePayment_def split: option.splits)

text \<open>
  Claim C8.  The wallet is connected and a signer is available, the payment is overdue
  and the contract returns its details.  If the connected account is the creator
  (addresses compared without regard to case), the payment's id is in the executable
  set.  If the account is not the creator, not the owner and not an authorized
  controller, the id is not in the set.
\<close>

theorem executable_set_membership:
  assumes "isConnected wl" and "truthy (wallet.address wl)" and "getSigner ch wl cur w"
    and "payment \<in> set payments"
    and "isPaymentOverdue now (PaymentData.scheduledTime payment)"
    and "getPaymentDetails ch w (PaymentData.id payment) = Some d"
  shows "(toLowerCase (PaymentDetails.creator d) = toLowerCase (the (wallet.address wl)) \<longrightarrow>
            (\<exists>S. checkExecutablePayments ch wl cur now w payments = Some S
                 \<and> PaymentData.id payment \<in> S))
       \<and> (toLowerCase (PaymentDetails.creator d) \<noteq> toLowerCase (the (wallet.address wl))
          \<and> (\<forall>ownr. owner ch w = Some ownr \<longrightarrow>
                 toLowerCase ownr \<noteq> toLowerCase (the (wallet.address wl)))
          \<and> authorizedControllers ch w (the (wallet.address wl)) \<noteq> Some True \<longrightarrow>
            (\<exists>S. checkExecutablePayments ch wl cur now w payments = Some S
                 \<and> PaymentData.id payment \<notin> S))"
proof (intro conjI impI)
  assume "toLowerCase (PaymentDetails.creator d) = toLowerCase (the (wallet.address wl))"
  then have "canExecutePayment ch wl cur w (PaymentData.id payment)"
    using assms by (simp add: canExecutePayment_def)
  then show "\<exists>S. checkExecutablePayments ch wl cur now w payments = Some S
                 \<and> PaymentData.id payment \<in> S"
    using assms by (auto simp: checkExecutablePayments_def executableLoop_eq)
next
  assume "toLowerCase (PaymentDetails.creator d) \<noteq> toLowerCase (the (wallet.address wl))
          \<and> (\<forall>ownr. owner ch w = Some ownr \<longrightarrow>
                 toLowerCase ownr \<noteq> toLowerCase (the (wallet.address wl)))
          \<and> authorizedControllers ch w (the (wallet.address wl)) \<noteq> Some True"
  then have "\<not> canExecutePayment ch wl cur w (PaymentData.id payment)"
    using assms by (auto simp: canExecutePayment_def split: option.splits)
  then show "\<exists>S. checkExecutablePayments ch wl cur now w payments = Some S
                 \<and> PaymentData.id payment \<notin> S"
    using assms by (auto simp: checkExecutablePayments_def executableLoop_eq)
qed

text \<open>
  The creator's account gets both of its overdue payments, an unrelated account gets
  none.
\<close>

theorem executable_set_membership_witness:
  "toLowerCase (PaymentDetails.creator (the (sample_details 0))) = toLowerCase ''0xAbCd''
   \<and> toLowerCase (PaymentDetails.creator (the (sample_details 0))) \<noteq> toLowerCase ''0xEEEE''
   \<and> checkExecutablePayments (sample_automation_chain []) (sample_wallet ''0xAbCd'')
       (automationCurrentNetwork env0 84532) 1000000 0 [sample_payment 2, sample_payment 0]
     = Some {0, 2}
   \<and> checkExecutablePayments (sample_automation_chain []) (sample_wallet ''0xEEEE'')
       (automationCurrentNetwork env0 84532) 1000000 0 [sample_payment 2, sample_payment 0]
     = Some {}"
proof -
  have s: "getSigner (sample_automation_chain []) (sample_wallet a)
             (automationCurrentNetwork env0 84532) 0" if "a \<noteq> []" for a
    using that by (simp add: sample_getSigner)
  have m: "sample_payment 0 \<in> set [sample_payment 2, sample_payment 0]"
    by simp
  have d: "getPaymentDetails (sample_automation_chain []) 0 (PaymentData.id (sample_payment 0))
             = Some (the (sample_details 0))"
    by (simp add: sample_automation_chain_def sample_ids sample_details_def)
  have c: "toLowerCase (PaymentDetails.creator (the (sample_details 0))) = toLowerCase ''0xAbCd''"
    and u: "toLowerCase (PaymentDetails.creator (the (sample_details 0))) \<noteq> toLowerCase ''0xEEEE''"
    by (simp_all add: sample_details_def lower1)
  have o: "\<forall>ownr. owner (sample_automation_chain []) 0 = Some ownr \<longrightarrow>
             toLowerCase ownr \<noteq> toLowerCase ''0xEEEE''"
    and n: "authorizedControllers (sample_automation_chain []) 0 ''0xEEEE'' \<noteq> Some True"
    by (simp_all add: sample_automation_chain_def lower1)
  have "\<exists>S. checkExecutablePayments (sample_automation_chain []) (sample_wallet ''0xAbCd'')
               (automationCurrentNetwork env0 84532) 1000000 0 [sample_payment 2, sample_payment 0]
             = Some S \<and> PaymentData.id (sample_payment 0) \<in> S"
    using executable_set_membership
            [of "sample_wallet ''0xAbCd''" "sample_automation_chain []"
                "automationCurrentNetwork env0 84532" 0 "sample_payment 0"
                "[sample_payment 2, sample_payment 0]" 1000000 "the (sample_details 0)"]
          s [of "''0xAbCd''"] m d c sample_overdue(1)
    by (simp add: sample_connected)
  moreover have "\<exists>S. checkExecutablePayments (sample_automation_chain []) (sample_wallet ''0xEEEE'')
               (automationCurrentNetwork env0 84532) 1000000 0 [sample_payment 2, sample_payment 0]
             = Some S \<and> PaymentData.id (sample_payment 0) \<notin> S"
    using executable_set_membership
            [of "sample_wallet ''0xEEEE''" "sample_automation_chain []"
                "automationCurrentNetwork env0 84532" 0 "sample_payment 0"
                "[sample_payment 2, sample_payment 0]" 1000000 "the (sample_details 0)"]
          s [of "''0xEEEE''"] m d u o n sample_overdue(1)
    by (simp add: sample_connected)
  ultimately show ?thesis
    using c u by (simp add: sample_executable)
qed

section \<open>Loading the payments\<close>

lemma fetchPayments_eq:
  "fetchPayments ch lib cur addr w is (scheduled, history) =
     (scheduled @ filter (\<lambda>p. \<not> PaymentData.executed p) (loadedPayments ch lib cur addr w is),
      history @ filter PaymentData.executed (loadedPayments ch lib cur addr w is))"
proof (induction "is" arbitrary: scheduled history)
  case Nil
  show ?case by (simp add: loadedPayments_def List.map_filter_simps)
next
  case (Cons i "is")
  show ?case
    by (simp add: Cons loadedPayments_def List.map_filter_simps userPayment_def mkPayment_def
        Let_def split: option.splits)
qed

lemma loadedPayments_creator:
  "p \<in> set (loadedPayments ch lib cur addr w is) \<Longrightarrow>
     toLowerCase (PaymentData.creator p) = toLowerCase addr"
  by (auto simp: loadedPayments_def List.map_filter_def userPayment_def mkPayment_def
      split: option.splits if_splits)

lemma sortNewestFirst_mset: "mset (sortNewestFirst xs) = mset xs"
  by (simp add: sortNewestFirst_def)

lemma sortNewestFirst_sorted:
  "sorted_wrt (\<lambda>a b. PaymentData.scheduledTime b \<le> PaymentData.scheduledTime a)
     (sortNewestFirst xs)"
proof -
  have "sorted (map (\<lambda>p. - PaymentData.scheduledTime p) (sortNewestFirst xs))"
    unfolding sortNewestFirst_def by (rule sorted_sort_key)
  then show ?thesis by (simp add: sorted_map)
qed

text \<open>
  Claim C10.  When \<open>loadPaymentData\<close> updates the two lists, every payment in them was
  created by the connected account (addresses compared without regard to case), the
  scheduled list holds exactly the loaded payments that are not executed and the
  history exactly the executed ones, and both are in descending order of
  \<open>scheduledTime\<close>.
\<close>

theorem loadPaymentData_lists:
  assumes "loadPaymentData ch lib e wl w = Some (scheduled, history)"
    and "cur = automationCurrentNetwork e (wallet.chainId wl)"
  shows "\<exists>paymentCount loaded.
           nextPaymentId ch w = Some paymentCount
         \<and> loaded = loadedPayments ch lib cur (the (wallet.address wl)) w [0..<paymentCount]
         \<and> (\<forall>p \<in> set scheduled \<union> set history.
               toLowerCase (PaymentData.creator p) = toLowerCase (the (wallet.address wl)))
         \<and> mset scheduled = mset (filter (\<lambda>p. \<not> PaymentData.executed p) loaded)
         \<and> mset history = mset (filter PaymentData.executed loaded)
         \<and> sorted_wrt (\<lambda>a b. PaymentData.scheduledTime b \<le> PaymentData.scheduledTime a) scheduled
         \<and> sorted_wrt (\<lambda>a b. PaymentData.scheduledTime b \<le> PaymentData.scheduledTime a) history"
proof -
  from assms obtain paymentCount where
    n: "nextPaymentId ch w = Some paymentCount"
    and s: "scheduled = sortNewestFirst (filter (\<lambda>p. \<not> PaymentData.executed p)
              (loadedPayments ch lib cur (the (wallet.address wl)) w [0..<paymentCount]))"
    and h: "history = sortNewestFirst (filter PaymentData.executed
              (loadedPayments ch lib cur (the (wallet.address wl)) w [0..<paymentCount]))"
    by (auto simp: loadPaymentData_def Let_def fetchPayments_eq split: if_splits option.splits)
  have "\<forall>p \<in> set scheduled \<union> set history.
          toLowerCase (PaymentData.creator p) = toLowerCase (the (wallet.address wl))"
  proof
    fix p assume "p \<in> set scheduled \<union> set history"
    then have "p \<in># mset scheduled + mset history" by simp
    then have "p \<in> set (loadedPayments ch lib cur (the (wallet.address wl)) w [0..<paymentCount])"
      unfolding s h sortNewestFirst_mset by auto
    then show "toLowerCase (PaymentData.creator p) = toLowerCase (the (wallet.address wl))"
      by (rule loadedPayments_creator)
  qed
  then show ?thesis
    using n s h by (simp add: sortNewestFirst_mset sortNewestFirst_sorted)
qed

text \<open>
  The sample chain loaded for the account \<open>0xAbCd\<close>.
\<close>

theorem loadPaymentData_lists_witness:
  "loadPaymentData (sample_automation_chain []) sample_lib env0 (sample_wallet ''0xAbCd'') 0 =
     Some ([sample_payment 2, sample_payment 0], [sample_payment 3])
   \<and> sorted_wrt (\<lambda>a b. PaymentData.scheduledTime b \<le> PaymentData.scheduledTime a)
        [sample_payment 2, sample_payment 0]
   \<and> mset [sample_payment 2, sample_payment 0] =
       mset (filter (\<lambda>p. \<not> PaymentData.executed p)
              (loadedPayments (sample_automation_chain []) sample_lib
                 (automationCurrentNetwork env0 84532) ''0xAbCd'' 0 [0..<4]))"
  using loadPaymentData_lists
          [OF sample_load [of "[]"], of "automationCurrentNetwork env0 84532"]
        sample_load [of "[]"]
  by (simp add: sample_wallet_def sample_automation_chain_def)

section \<open>Scaling of amounts\<close>

lemma checkout_tokens_cases:
  "tokens (checkoutCurrentNetwork e cid) t = Some info \<Longrightarrow>
     (t = ETH_ADDRESS \<and> TokenInfo.decimals info = 18)
     \<or> (cid \<noteq> 2810 \<and> t = USDC_ADDRESS \<and> TokenInfo.decimals info = 6)
     \<or> (cid = 2810 \<and> t = USDT_ADDRESS \<and> TokenInfo.decimals info = 18)"
  by (auto simp: checkoutCurrentNetwork_cases CHECKOUT_MORPH_HOLESKY_def CHECKOUT_BASE_SEPOLIA_def
      ETH_INFO_def split: if_splits)

lemma submitDecimals_values:
  "submitDecimals ZeroAddress = 18" "submitDecimals USDC_ADDRESS = 6"
  "submitDecimals USDT_ADDRESS = 18" "submitDecimals ETH_ADDRESS = 18"
  by (simp_all add: submitDecimals_def ZeroAddress_def USDC_ADDRESS_def USDT_ADDRESS_def
      ETH_ADDRESS_def)

text \<open>
  Claim C6.  The \<open>createInvoice\<close> call carries the entered amount parsed with the
  decimal count of the selected token, and that token.  The count is 18 for the native
  asset (the zero address) and otherwise the count the checkout registry configures for
  the token, 6 for the Base Sepolia USDC address.  An invoice of 1000000 raw units in a
  token configured with 6 decimals is displayed as \<open>1.00\<close>.
\<close>

theorem amounts_scaled_by_configured_decimals:
  "(handleSubmit lib parseInt ready addr newHash formData =
        Some (CreateInvoice h tok amountWei v m l d)
      \<longrightarrow> parseUnits lib (InvoiceFormData.amount formData)
            (submitDecimals (InvoiceFormData.token formData)) = Some amountWei
          \<and> (InvoiceFormData.token formData \<noteq> [] \<longrightarrow> tok = InvoiceFormData.token formData))
   \<and> submitDecimals ZeroAddress = 18
   \<and> submitDecimals USDC_ADDRESS = 6
   \<and> (tokens (checkoutCurrentNetwork e cid) t = Some info \<longrightarrow>
         submitDecimals t = TokenInfo.decimals info)
   \<and> (tokens (checkoutCurrentNetwork e cid') (InvoiceData.token invd) = Some info'
        \<and> TokenInfo.decimals info' = 6 \<and> InvoiceData.amount invd = 1000000
      \<longrightarrow> fst (displayAmount e cid' invd) = ''1.00'')"
proof (intro conjI impI)
  assume "handleSubmit lib parseInt ready addr newHash formData =
        Some (CreateInvoice h tok amountWei v m l d)"
  then show "parseUnits lib (InvoiceFormData.amount formData)
            (submitDecimals (InvoiceFormData.token formData)) = Some amountWei"
    by (auto simp: handleSubmit_def split: if_splits option.splits)
next
  assume "handleSubmit lib parseInt ready addr newHash formData =
        Some (CreateInvoice h tok amountWei v m l d)"
    and "InvoiceFormData.token formData \<noteq> []"
  then show "tok = InvoiceFormData.token formData"
    by (auto simp: handleSubmit_def split: if_splits option.splits)
next
  show "submitDecimals ZeroAddress = 18" "submitDecimals USDC_ADDRESS = 6"
    by (simp_all add: submitDecimals_values)
next
  assume "tokens (checkoutCurrentNetwork e cid) t = Some info"
  from checkout_tokens_cases [OF this]
  show "submitDecimals t = TokenInfo.decimals info"
    by (auto simp: submitDecimals_values)
next
  assume "tokens (checkoutCurrentNetwork e cid') (InvoiceData.token invd) = Some info'
        \<and> TokenInfo.decimals info' = 6 \<and> InvoiceData.amount invd = 1000000"
  then show "fst (displayAmount e cid' invd) = ''1.00''"
    by (simp add: displayAmount_def checkoutTokenDecimals_def Let_def toFixed_one)
qed

text \<open>
  One USDC entered on the creation page, and the resulting invoice on the checkout
  page.
\<close>

theorem amounts_scaled_by_configured_decimals_witness:
  "handleSubmit sample_lib sample_parseInt True (Some ''0xAbCd'') ''0xh'' sample_form =
     Some (CreateInvoice ''0xh'' USDC_ADDRESS 1000000 (Some 86400) ''memo'' [] [])
   \<and> tokens (checkoutCurrentNetwork env0 84532) USDC_ADDRESS =
       Some \<lparr> TokenInfo.symbol = ''USDC'', TokenInfo.decimals = 6, TokenInfo.logo = USDC_LOGO \<rparr>
   \<and> displayAmount env0 84532 (mappedInv usdc_invoice) = (''1.00'', ''USDC'')"
proof -
  have hs: "handleSubmit sample_lib sample_parseInt True (Some ''0xAbCd'') ''0xh'' sample_form =
     Some (CreateInvoice ''0xh'' USDC_ADDRESS 1000000 (Some 86400) ''memo'' [] [])"
    by (simp add: handleSubmit_def sample_form_def sample_lib_def sample_parseInt_def
        submitDecimals_values)
       (simp add: USDC_ADDRESS_def)
  have tk: "tokens (checkoutCurrentNetwork env0 84532) USDC_ADDRESS =
       Some \<lparr> TokenInfo.symbol = ''USDC'', TokenInfo.decimals = 6, TokenInfo.logo = USDC_LOGO \<rparr>"
    by (simp add: checkoutCurrentNetwork_cases CHECKOUT_BASE_SEPOLIA_def USDC_ADDRESS_def
        ETH_ADDRESS_def ZeroAddress_def)
  have sy: "snd (displayAmount env0 84532 (mappedInv usdc_invoice)) = ''USDC''"
    by (simp add: displayAmount_def checkoutTokenSymbol_def usdc_invoice_def tk Let_def)
  have "fst (displayAmount env0 84532 (mappedInv usdc_invoice)) = ''1.00''"
    using amounts_scaled_by_configured_decimals
            [of sample_lib sample_parseInt True "Some ''0xAbCd''" "''0xh''" sample_form
                "''0xh''" USDC_ADDRESS 1000000 "Some 86400" "''memo''" "[]" "[]"
                env0 84532 USDC_ADDRESS
                "\<lparr> TokenInfo.symbol = ''USDC'', TokenInfo.decimals = 6, TokenInfo.logo = USDC_LOGO \<rparr>"
                84532 "mappedInv usdc_invoice"
                "\<lparr> TokenInfo.symbol = ''USDC'', TokenInfo.decimals = 6, TokenInfo.logo = USDC_LOGO \<rparr>"]
          hs tk
    by (simp add: usdc_invoice_def)
  then show ?thesis
    using hs tk sy by (simp add: prod_eq_iff)
qed

section \<open>Analytics\<close>

lemma bucketTotal_empty:
  assumes "\<forall>i \<in> set invoiceList.
             \<not> (countedAsPaid i \<and> compareFunction p (int (paidAt i) * 1000) d)"
  shows "bucketTotal p invoiceList d = 0"
proof -
  have "filter (\<lambda>invd. compareFunction p (int (paidAt invd) * 1000) d)
          (filter countedAsPaid invoiceList) = []"
    using assms by (auto simp: filter_empty_conv)
  then show ?thesis by (simp add: bucketTotal_def)
qed

text \<open>
  Claim C9.  The bars of the chart are a function of the invoice list, the selected
  period and the dates of its buckets: two calls that agree on these give the same
  sequence of bars, whatever else the clock made of the other windows.  The labels are
  the label function mapped over the dates, in order, the values are the bucket totals,
  and a bucket that matches no paid invoice has value 0.
\<close>

theorem analytics_deterministic:
  assumes "periodDates win1 p = periodDates win2 p"
  shows "getAnalyticsData lb win1 p invoiceList = getAnalyticsData lb win2 p invoiceList
       \<and> map label (getAnalyticsData lb win1 p invoiceList)
           = map (labelFunction lb p) (periodDates win1 p)
       \<and> map total (getAnalyticsData lb win1 p invoiceList)
           = map (bucketTotal p invoiceList) (periodDates win1 p)
       \<and> (\<forall>b \<in> set (getAnalyticsData lb win1 p invoiceList).
             (\<forall>i \<in> set invoiceList.
                \<not> (countedAsPaid i \<and> compareFunction p (int (paidAt i) * 1000) (date b)))
             \<longrightarrow> total b = 0)"
  using assms by (auto simp: getAnalyticsData_def bucketTotal_empty comp_def)

text \<open>
  One invoice paid on the first of two days: the first bar is 1, the second 0, and a
  different clock with the same week gives the same bars.
\<close>

theorem analytics_deterministic_witness:
  "periodDates (sample_windows []) ''This Week'' = periodDates (sample_windows [0]) ''This Week''
   \<and> map (\<lambda>b. (label b, total b))
        (getAnalyticsData sample_labels (sample_windows []) ''This Week'' [sample_paid_invoice])
       = [(''Tue'', 1), (''Wed'', 0)]
   \<and> getAnalyticsData sample_labels (sample_windows []) ''This Week'' [sample_paid_invoice]
       = getAnalyticsData sample_labels (sample_windows [0]) ''This Week'' [sample_paid_invoice]"
proof -
  have pd: "periodDates (sample_windows xs) ''This Week'' = [1700000000000, 1700086400000]" for xs
    by (simp add: periodDates_def sample_windows_def)
  have "map (\<lambda>b. (label b, total b))
        (getAnalyticsData sample_labels (sample_windows []) ''This Week'' [sample_paid_invoice])
       = [(''Tue'', 1), (''Wed'', 0)]"
    by (simp add: getAnalyticsData_def pd labelFunction_def sample_labels_def sample_days
        bucketTotal_def compareFunction_def sameUTCDay_def countedAsPaid_def
        sample_paid_invoice_def analyticsDecimals_def USDC_ADDRESS_def)
  then show ?thesis
    using analytics_deterministic
            [of "sample_windows []" "''This Week''" "sample_windows [0]" sample_labels
                "[sample_paid_invoice]"]
    by (simp add: pd)
qed

end
